theory Spec2Isabelle
  imports Complex_Main
begin

section \<open>Python values, exceptions and dictionaries\<close>

text \<open>
  The skill runtime of \<^verbatim>\<open>src/core/skill\<close> is written in Python. Its values are modelled
  by a small universe of Python values: \<^verbatim>\<open>None\<close>, booleans, unbounded integers, strings,
  lists and dictionaries with string keys; a float is kept as the text that \<^verbatim>\<open>repr\<close>
  gives for it. A character is a code point below 256. A dictionary is an association
  list in insertion order, as Python's \<^verbatim>\<open>dict\<close> iterates.
\<close>

datatype py_value =
    PNone
  | PBool bool
  | PInt int
  | PFloat string
  | PStr string
  | PList "py_value list"
  | PDict "(string \<times> py_value) list"

text \<open>
  Exceptions are values. Only the classes that the runtime raises or tells apart in an
  \<^verbatim>\<open>except\<close> clause are named; \<open>ImportError\<close> stands for the class with its subclass
  \<^verbatim>\<open>ModuleNotFoundError\<close>, \<open>OtherError\<close> for every other subclass of \<^verbatim>\<open>Exception\<close>.
  The string is what \<^verbatim>\<open>str(e)\<close> returns.
\<close>

datatype exn_kind =
    ValueError
  | FileNotFoundError
  | ImportError
  | AttributeError
  | KeyError
  | NotADirectoryError
  | ValidationError
  | OtherError

datatype pyexn = PyExn exn_kind string

fun exn_kind_of :: "pyexn \<Rightarrow> exn_kind" where
  "exn_kind_of (PyExn k m) = k"

fun exn_str :: "pyexn \<Rightarrow> string" where
  "exn_str (PyExn k m) = m"

text \<open>
  \<^verbatim>\<open>d[k] = v\<close> on a Python dictionary: an existing key keeps its position and gets the
  new value, a new key is appended.
\<close>

fun dict_set :: "('k \<times> 'v) list \<Rightarrow> 'k \<Rightarrow> 'v \<Rightarrow> ('k \<times> 'v) list" where
  "dict_set [] k v = [(k, v)]"
| "dict_set ((k', v') # d) k v =
     (if k' = k then (k, v) # d else (k', v') # dict_set d k v)"

definition dict_get :: "('k \<times> 'v) list \<Rightarrow> 'k \<Rightarrow> 'v option" where
  "dict_get d k = map_of d k"

definition dict_keys :: "('k \<times> 'v) list \<Rightarrow> 'k list" where
  "dict_keys d = map fst d"

definition dict_values :: "('k \<times> 'v) list \<Rightarrow> 'v list" where
  "dict_values d = map snd d"

subsection \<open>String forms\<close>

definition digit_char :: "nat \<Rightarrow> char" where
  "digit_char n = ''0123456789'' ! (n mod 10)"

fun str_nat :: "nat \<Rightarrow> string" where
  "str_nat n = (if n < 10 then [digit_char n] else str_nat (n div 10) @ [digit_char (n mod 10)])"

definition str_int :: "int \<Rightarrow> string" where
  "str_int i = (if i < 0 then CHR ''-'' # str_nat (nat (- i)) else str_nat (nat i))"

fun join_with :: "string \<Rightarrow> string list \<Rightarrow> string" where
  "join_with sep [] = []"
| "join_with sep [x] = x"
| "join_with sep (x # y # ys) = x @ sep @ join_with sep (y # ys)"

text \<open>
  \<^verbatim>\<open>repr\<close> of a string: the quote is the double quote when the string has a single
  quote and no double quote, and the single quote otherwise; the quote and the backslash
  are escaped with a backslash, tab, newline and carriage return are written
  \<^verbatim>\<open>\t\<close>, \<^verbatim>\<open>\n\<close>, \<^verbatim>\<open>\r\<close>, and every other character that is not printable is written
  \<^verbatim>\<open>\xhh\<close>. Below 256 the characters that are not printable are the control characters,
  the no-break space and the soft hyphen.
\<close>

definition hex_digit :: "nat \<Rightarrow> char" where
  "hex_digit n = ''0123456789abcdef'' ! (n mod 16)"

definition printable :: "char \<Rightarrow> bool" where
  "printable c =
     (let n = (of_char c :: nat) in (32 \<le> n \<and> n < 127) \<or> (161 \<le> n \<and> n \<noteq> 173))"

definition repr_char :: "char \<Rightarrow> char \<Rightarrow> string" where
  "repr_char q c =
     (if c = q \<or> c = CHR 0x5C then [CHR 0x5C, c]
      else if c = CHR 0x09 then [CHR 0x5C, CHR ''t'']
      else if c = CHR 0x0A then [CHR 0x5C, CHR ''n'']
      else if c = CHR 0x0D then [CHR 0x5C, CHR ''r'']
      else if printable c then [c]
      else [CHR 0x5C, CHR ''x'', hex_digit ((of_char c :: nat) div 16),
            hex_digit ((of_char c :: nat) mod 16)])"

definition repr_quote :: "string \<Rightarrow> char" where
  "repr_quote s =
     (if List.member s (CHR 0x27) \<and> \<not> List.member s (CHR 0x22) then CHR 0x22 else CHR 0x27)"

definition repr_str :: "string \<Rightarrow> string" where
  "repr_str s = repr_quote s # concat (map (repr_char (repr_quote s)) s) @ [repr_quote s]"

fun py_repr :: "py_value \<Rightarrow> string" where
  "py_repr PNone = ''None''"
| "py_repr (PBool b) = (if b then ''True'' else ''False'')"
| "py_repr (PInt i) = str_int i"
| "py_repr (PFloat s) = s"
| "py_repr (PStr s) = repr_str s"
| "py_repr (PList xs) = ''['' @ join_with '', '' (map py_repr xs) @ '']''"
| "py_repr (PDict kvs) =
     ''{'' @ join_with '', '' (map (\<lambda>kv. repr_str (fst kv) @ '': '' @ py_repr (snd kv)) kvs) @ ''}''"

fun py_str :: "py_value \<Rightarrow> string" where
  "py_str (PStr s) = s"
| "py_str v = py_repr v"

section \<open>Data model (types.py)\<close>

datatype SkillType = PURE_PROMPT | PURE_SCRIPT | HYBRID

record InputSchema =
  is_type :: string
  is_properties :: "(string \<times> py_value) list"
  is_required :: "string list"

record OutputSchema =
  os_type :: string
  os_properties :: "(string \<times> py_value) list"

record ExecutionConfig =
  handler :: string
  function_name :: string
  timeout :: int

record SkillMetadata =
  name :: string
  version :: string
  description :: string
  tags :: "string list"
  type :: SkillType

record SkillDefinition = SkillMetadata +
  input_schema :: InputSchema
  output_schema :: OutputSchema
  prompt_template :: "string option"
  execution :: "ExecutionConfig option"

record SkillResult =
  success :: bool
  output_value :: py_value
  error :: "string option"
  execution_time :: real

text \<open>
  \<open>function_name\<close> is the field \<^verbatim>\<open>function\<close> of \<^verbatim>\<open>ExecutionConfig\<close> and \<open>output_value\<close>
  the field \<^verbatim>\<open>output\<close> of \<^verbatim>\<open>SkillResult\<close>; \<^verbatim>\<open>None\<close> in \<^verbatim>\<open>output\<close> is \<open>PNone\<close>.
\<close>

section \<open>Descriptors and the skills directory\<close>

text \<open>
  What \<^verbatim>\<open>yaml.safe_load\<close> returns for a \<^verbatim>\<open>skill.yaml\<close>: a mapping whose keys may each
  be absent. The keys that \<^verbatim>\<open>_load_metadata\<close> reads (\<^verbatim>\<open>name\<close>, \<^verbatim>\<open>version\<close>,
  \<^verbatim>\<open>description\<close>, \<^verbatim>\<open>tags\<close>, \<^verbatim>\<open>type\<close>) carry the value as YAML gives it, of any
  type, \<^verbatim>\<open>null\<close> being \<open>PNone\<close>. The keys that only \<^verbatim>\<open>load_full\<close> reads are kept
  typed: \<open>c_execution\<close> is \<open>None\<close> when the key is absent, \<open>Some None\<close> when it is
  present with a null value. A file that cannot be opened or parsed, or whose document
  is not a mapping, is \<open>Unreadable\<close> with the exception the read raises.
\<close>

record raw_execution =
  r_handler :: "string option"
  r_function :: "string option"
  r_timeout :: "int option"

record config =
  c_name :: "py_value option"
  c_version :: "py_value option"
  c_description :: "py_value option"
  c_tags :: "py_value option"
  c_type :: "py_value option"
  c_input_schema :: "InputSchema option"
  c_output_schema :: "OutputSchema option"
  c_prompt_template :: "string option"
  c_execution :: "raw_execution option option"

datatype descriptor = Unreadable pyexn | Parsed config

record dir_entry =
  is_dir :: bool
  skill_yaml :: "descriptor option"

text \<open>
  The installation that the registry runs in. \<open>root_exists\<close> is what \<^verbatim>\<open>Path.exists()\<close>
  answers for the skills directory. \<open>listing_error\<close> is the exception, if any, that stops
  the loop which collects the candidates: the one that \<^verbatim>\<open>iterdir()\<close> raises
  (\<^verbatim>\<open>NotADirectoryError\<close> when the path is a file) or that \<^verbatim>\<open>is_dir()\<close> or \<^verbatim>\<open>exists()\<close>
  raises for an entry. \<open>entries\<close> is what \<^verbatim>\<open>iterdir()\<close> lists otherwise, in listing
  order. \<open>pydantic_coerces_numbers\<close> tells the two behaviours of the installed pydantic
  apart: version 1 turns a number given for a string field into its string form, version 2
  rejects it.
\<close>

record file_system =
  root_exists :: bool
  listing_error :: "pyexn option"
  pydantic_coerces_numbers :: bool
  entries :: "(string \<times> dir_entry) list"

text \<open>
  \<^verbatim>\<open>str(Path(s))\<close> for a POSIX path: empty components and \<^verbatim>\<open>.\<close> components are dropped,
  the root is \<^verbatim>\<open>//\<close> for exactly two leading slashes and \<^verbatim>\<open>/\<close> for any other number
  of them, and the empty path is \<^verbatim>\<open>.\<close>. \<open>path_join d n\<close> is \<^verbatim>\<open>str(Path(d) / n)\<close> for
  the name \<open>n\<close> of a directory entry.
\<close>

fun split_slash :: "string \<Rightarrow> string list" where
  "split_slash [] = [[]]"
| "split_slash (c # cs) =
     (if c = CHR ''/'' then [] # split_slash cs
      else (case split_slash cs of [] \<Rightarrow> [[c]] | p # ps \<Rightarrow> (c # p) # ps))"

definition path_root :: "string \<Rightarrow> string" where
  "path_root s =
     (let n = length (takeWhile (\<lambda>c. c = CHR ''/'') s)
      in if n = 0 then [] else if n = 2 then ''//'' else ''/'')"

definition path_parts :: "string \<Rightarrow> string list" where
  "path_parts s = filter (\<lambda>p. p \<noteq> [] \<and> p \<noteq> ''.'') (split_slash s)"

definition path_str :: "string \<Rightarrow> string" where
  "path_str s =
     (if path_root s = [] \<and> path_parts s = [] then ''.''
      else path_root s @ join_with ''/'' (path_parts s))"

definition path_join :: "string \<Rightarrow> string \<Rightarrow> string" where
  "path_join d n = path_root d @ join_with ''/'' (path_parts d @ [n])"

definition read_descriptor :: "file_system \<Rightarrow> string \<Rightarrow> descriptor option" where
  "read_descriptor fs n = (case map_of (entries fs) n of None \<Rightarrow> None | Some e \<Rightarrow> skill_yaml e)"

section \<open>Registry (registry.py)\<close>

record SkillRegistry =
  skills_dir :: string
  metadata :: "(string \<times> SkillMetadata) list"
  full_definitions :: "(string \<times> SkillDefinition) list"
  loaded :: bool

text \<open>\<open>skills_dir\<close> holds the string form of the \<^verbatim>\<open>Path\<close> that the source keeps.\<close>

definition init_registry :: "string \<Rightarrow> SkillRegistry" where
  "init_registry d =
     \<lparr>skills_dir = path_str d, metadata = [], full_definitions = [], loaded = False\<rparr>"

text \<open>
  \<^verbatim>\<open>SkillType(value)\<close>: the member whose value equals \<open>value\<close>, so only one of the three
  strings is accepted.
\<close>

definition parse_SkillType :: "py_value \<Rightarrow> pyexn + SkillType" where
  "parse_SkillType v =
     (if v = PStr ''pure-prompt'' then Inr PURE_PROMPT
      else if v = PStr ''pure-script'' then Inr PURE_SCRIPT
      else if v = PStr ''hybrid'' then Inr HYBRID
      else Inl (PyExn ValueError (py_repr v @ '' is not a valid SkillType'')))"

text \<open>
  The validation that pydantic runs in \<^verbatim>\<open>SkillMetadata(...)\<close>. A \<^verbatim>\<open>str\<close> field accepts a
  string and, in version 1 only, a number, which becomes its string form; \<^verbatim>\<open>None\<close>, lists
  and dictionaries are rejected. \<^verbatim>\<open>tags: List[str]\<close> accepts a list whose items are
  accepted as strings. A rejected value raises \<^verbatim>\<open>ValidationError\<close>; of its report the
  first line is kept, which counts the errors: one for each rejected field, and for a list
  of tags one for each rejected item.
\<close>

definition validate_str :: "bool \<Rightarrow> py_value \<Rightarrow> string option" where
  "validate_str coerce v =
     (case v of
        PStr s \<Rightarrow> Some s
      | PInt i \<Rightarrow> if coerce then Some (str_int i) else None
      | PBool b \<Rightarrow> if coerce then Some (if b then ''True'' else ''False'') else None
      | PFloat s \<Rightarrow> if coerce then Some s else None
      | _ \<Rightarrow> None)"

definition validate_tags :: "bool \<Rightarrow> py_value \<Rightarrow> string list option" where
  "validate_tags coerce v =
     (case v of PList xs \<Rightarrow> those (map (validate_str coerce) xs) | _ \<Rightarrow> None)"

definition count_errors :: "bool \<Rightarrow> py_value \<Rightarrow> py_value \<Rightarrow> py_value \<Rightarrow> py_value \<Rightarrow> nat" where
  "count_errors coerce nv vv dv tv =
     length (filter (\<lambda>v. validate_str coerce v = None) [nv, vv, dv]) +
     (case tv of
        PList xs \<Rightarrow> length (filter (\<lambda>x. validate_str coerce x = None) xs)
      | _ \<Rightarrow> 1)"

definition validation_report :: "nat \<Rightarrow> string" where
  "validation_report n =
     str_nat n @ (if n = 1 then '' validation error for SkillMetadata''
                  else '' validation errors for SkillMetadata'')"

definition new_SkillMetadata ::
  "bool \<Rightarrow> py_value \<Rightarrow> py_value \<Rightarrow> py_value \<Rightarrow> py_value \<Rightarrow> SkillType
     \<Rightarrow> pyexn + SkillMetadata" where
  "new_SkillMetadata coerce nv vv dv tv ty =
     (case (validate_str coerce nv, validate_str coerce vv, validate_str coerce dv,
            validate_tags coerce tv) of
        (Some n, Some v, Some d, Some ts) \<Rightarrow>
          Inr \<lparr>name = n, version = v, description = d, tags = ts, type = ty\<rparr>
      | _ \<Rightarrow>
          Inl (PyExn ValidationError (validation_report (count_errors coerce nv vv dv tv))))"

definition load_metadata :: "bool \<Rightarrow> string \<Rightarrow> descriptor option \<Rightarrow> pyexn + SkillMetadata" where
  "load_metadata coerce skill_path file =
     (case file of
        None \<Rightarrow> Inl (PyExn FileNotFoundError (''skill.yaml not found in '' @ skill_path))
      | Some (Unreadable e) \<Rightarrow> Inl e
      | Some (Parsed c) \<Rightarrow>
          (case c_name c of
             None \<Rightarrow> Inl (PyExn ValueError (''Skill missing 'name' field: '' @ skill_path))
           | Some nv \<Rightarrow>
          (case c_version c of
             None \<Rightarrow> Inl (PyExn ValueError (''Skill missing 'version' field: '' @ skill_path))
           | Some vv \<Rightarrow>
          (case c_description c of
             None \<Rightarrow> Inl (PyExn ValueError (''Skill missing 'description' field: '' @ skill_path))
           | Some dv \<Rightarrow>
          (case parse_SkillType (case c_type c of None \<Rightarrow> PStr ''pure-script'' | Some t \<Rightarrow> t) of
             Inl e \<Rightarrow> Inl e
           | Inr ty \<Rightarrow>
               new_SkillMetadata coerce nv vv dv
                 (case c_tags c of None \<Rightarrow> PList [] | Some ts \<Rightarrow> ts) ty)))))"

text \<open>
  The loop of \<^verbatim>\<open>scan\<close> over the gathered results: an exception is printed as a warning
  and skipped, a metadata record is stored under its name.
\<close>

fun install_results ::
  "(pyexn + SkillMetadata) list \<Rightarrow> (string \<times> SkillMetadata) list \<Rightarrow> string list
     \<Rightarrow> (string \<times> SkillMetadata) list \<times> string list" where
  "install_results [] md ws = (md, ws)"
| "install_results (Inl e # rs) md ws =
     install_results rs md (ws @ [''Warning: Failed to load skill metadata: '' @ exn_str e])"
| "install_results (Inr m # rs) md ws = install_results rs (dict_set md (name m) m) ws"

definition candidates :: "file_system \<Rightarrow> (string \<times> dir_entry) list" where
  "candidates fs = filter (\<lambda>(n, e). is_dir e \<and> skill_yaml e \<noteq> None) (entries fs)"

definition scan_tasks :: "file_system \<Rightarrow> SkillRegistry \<Rightarrow> (pyexn + SkillMetadata) list" where
  "scan_tasks fs r =
     map (\<lambda>(n, e). load_metadata (pydantic_coerces_numbers fs) (path_join (skills_dir r) n)
                   (skill_yaml e))
       (candidates fs)"

text \<open>
  \<^verbatim>\<open>scan\<close> returns the registry after the scan (whose \<open>metadata\<close> is the returned
  dictionary) and the warnings it printed, or the exception it raises.
\<close>

definition scan :: "file_system \<Rightarrow> SkillRegistry \<Rightarrow> pyexn + (SkillRegistry \<times> string list)" where
  "scan fs r =
     (if \<not> root_exists fs
      then Inl (PyExn FileNotFoundError (''Skills directory not found: '' @ skills_dir r))
      else (case listing_error fs of
              Some e \<Rightarrow> Inl e
            | None \<Rightarrow>
                (case install_results (scan_tasks fs r) (metadata r) [] of
                   (md, ws) \<Rightarrow> Inr (r\<lparr>metadata := md, loaded := True\<rparr>, ws))))"

definition default_input_schema :: InputSchema where
  "default_input_schema = \<lparr>is_type = ''object'', is_properties = [], is_required = []\<rparr>"

definition default_output_schema :: OutputSchema where
  "default_output_schema = \<lparr>os_type = ''object'', os_properties = []\<rparr>"

definition load_execution_config :: "raw_execution option \<Rightarrow> ExecutionConfig option" where
  "load_execution_config exec_config =
     (case exec_config of
        None \<Rightarrow> None
      | Some x \<Rightarrow>
          Some \<lparr>handler = (case r_handler x of None \<Rightarrow> ''handler.py'' | Some h \<Rightarrow> h),
                function_name = (case r_function x of None \<Rightarrow> ''execute'' | Some f \<Rightarrow> f),
                timeout = (case r_timeout x of None \<Rightarrow> 30000 | Some t \<Rightarrow> t)\<rparr>)"

definition build_definition :: "SkillMetadata \<Rightarrow> config \<Rightarrow> SkillDefinition" where
  "build_definition m c =
     \<lparr>name = name m, version = version m, description = description m, tags = tags m,
      type = type m,
      input_schema = (case c_input_schema c of None \<Rightarrow> default_input_schema | Some s \<Rightarrow> s),
      output_schema = (case c_output_schema c of None \<Rightarrow> default_output_schema | Some s \<Rightarrow> s),
      prompt_template = c_prompt_template c,
      execution = (case c_execution c of None \<Rightarrow> None | Some x \<Rightarrow> load_execution_config x)\<rparr>"

definition not_found_message :: "string \<Rightarrow> string list \<Rightarrow> string" where
  "not_found_message skill_name known =
     ''Skill '' @ repr_str skill_name @ '' not found in registry. Available skills: ''
       @ py_repr (PList (map PStr known))"

definition load_full ::
  "file_system \<Rightarrow> SkillRegistry \<Rightarrow> string \<Rightarrow> (pyexn + SkillDefinition) \<times> SkillRegistry" where
  "load_full fs r skill_name =
     (case dict_get (full_definitions r) skill_name of
        Some d \<Rightarrow> (Inr d, r)
      | None \<Rightarrow>
          (case dict_get (metadata r) skill_name of
             None \<Rightarrow>
               (Inl (PyExn ValueError (not_found_message skill_name (dict_keys (metadata r)))), r)
           | Some m \<Rightarrow>
               (case read_descriptor fs skill_name of
                  None \<Rightarrow>
                    (Inl (PyExn FileNotFoundError
                       (''skill.yaml not found for '' @ repr_str skill_name)), r)
                | Some (Unreadable e) \<Rightarrow> (Inl e, r)
                | Some (Parsed c) \<Rightarrow>
                    (let definition = build_definition m c
                     in (Inr definition,
                         r\<lparr>full_definitions :=
                              dict_set (full_definitions r) skill_name definition\<rparr>)))))"

definition registry_list :: "SkillRegistry \<Rightarrow> string list option \<Rightarrow> SkillMetadata list" where
  "registry_list r tag_filter =
     (let skills = dict_values (metadata r)
      in (case tag_filter of
            None \<Rightarrow> skills
          | Some ts \<Rightarrow>
              if ts = [] then skills
              else filter (\<lambda>s. list_ex (\<lambda>tag. List.member (tags s) tag) ts) skills))"

definition get_full :: "SkillRegistry \<Rightarrow> string \<Rightarrow> SkillDefinition option" where
  "get_full r skill_name = dict_get (full_definitions r) skill_name"

definition is_loaded :: "SkillRegistry \<Rightarrow> bool" where
  "is_loaded r = loaded r"

definition get_skill_names :: "SkillRegistry \<Rightarrow> string list" where
  "get_skill_names r = dict_keys (metadata r)"

definition clear_cache :: "SkillRegistry \<Rightarrow> SkillRegistry" where
  "clear_cache r = r\<lparr>full_definitions := []\<rparr>"

section \<open>Executor (executor.py)\<close>

text \<open>
  \<^verbatim>\<open>str.replace(old, new)\<close>: every non-overlapping occurrence of \<open>old\<close>, found from the
  left, is replaced; the replacement is not scanned again. With an empty \<open>old\<close> Python
  puts \<open>new\<close> before every character and at the end.
\<close>

fun replace_empty :: "string \<Rightarrow> string \<Rightarrow> string" where
  "replace_empty new [] = new"
| "replace_empty new (c # cs) = new @ c # replace_empty new cs"

fun replace_from :: "string \<Rightarrow> string \<Rightarrow> string \<Rightarrow> string" where
  "replace_from old new [] = []"
| "replace_from old new (c # cs) =
     (if old \<noteq> [] \<and> take (length old) (c # cs) = old
      then new @ replace_from old new (drop (length old) (c # cs))
      else c # replace_from old new cs)"

definition py_replace :: "string \<Rightarrow> string \<Rightarrow> string \<Rightarrow> string" where
  "py_replace s old new = (if old = [] then replace_empty new s else replace_from old new s)"

text \<open>
  A handler is a function of the input value that returns a value or raises; a module is
  its table of attributes; \<open>importer\<close> is \<^verbatim>\<open>importlib.import_module\<close>, which returns the
  module of a path or raises. Synchronous and coroutine handlers are not told apart.
\<close>

type_synonym handler_fun = "py_value \<Rightarrow> pyexn + py_value"

type_synonym py_module = "(string \<times> handler_fun) list"

record world =
  fs :: file_system
  importer :: "string \<Rightarrow> pyexn + py_module"

record SkillExecutor =
  registry :: SkillRegistry
  executor_loaded :: bool

definition init_executor :: "string \<Rightarrow> SkillExecutor" where
  "init_executor d = \<lparr>registry = init_registry d, executor_loaded = False\<rparr>"

definition ensure_loaded :: "file_system \<Rightarrow> SkillExecutor \<Rightarrow> pyexn + SkillExecutor" where
  "ensure_loaded f ex =
     (if \<not> executor_loaded ex
      then (case scan f (registry ex) of
              Inl e \<Rightarrow> Inl e
            | Inr (r, ws) \<Rightarrow> Inr (ex\<lparr>registry := r, executor_loaded := True\<rparr>))
      else Inr ex)"

text \<open>The loop body of the template rendering, for one item of \<^verbatim>\<open>input_data.items()\<close>.\<close>

definition render_item :: "string \<Rightarrow> string \<times> py_value \<Rightarrow> string" where
  "render_item template kv =
     py_replace (py_replace template (''{{'' @ fst kv @ ''}}'') (py_str (snd kv)))
       (''{'' @ fst kv @ ''}'') (py_str (snd kv))"

definition render_template :: "string \<Rightarrow> (string \<times> py_value) list \<Rightarrow> string" where
  "render_template template input_data = foldl render_item template input_data"

definition execute_prompt_skill ::
  "SkillDefinition \<Rightarrow> (string \<times> py_value) list \<Rightarrow> pyexn + py_value" where
  "execute_prompt_skill skill input_data =
     (case prompt_template skill of
        None \<Rightarrow>
          Inl (PyExn ValueError
            (''Pure prompt skill '' @ repr_str (name skill) @ '' missing prompt_template''))
      | Some t \<Rightarrow>
          if t = []
          then Inl (PyExn ValueError
            (''Pure prompt skill '' @ repr_str (name skill) @ '' missing prompt_template''))
          else Inr (PDict [(''type'', PStr ''prompt''),
                           (''content'', PStr (render_template t input_data)),
                           (''skill_name'', PStr (name skill))]))"

definition strip_py :: "string \<Rightarrow> string" where
  "strip_py h =
     (if 3 \<le> length h \<and> drop (length h - 3) h = ''.py'' then take (length h - 3) h else h)"

definition module_path :: "SkillDefinition \<Rightarrow> ExecutionConfig \<Rightarrow> string" where
  "module_path skill ec =
     ''skills.'' @ name skill @ ''.'' @ py_replace (strip_py (handler ec)) ''/'' ''.''"

text \<open>The two \<^verbatim>\<open>except\<close> clauses around the import, the lookup and the call.\<close>

definition rewrap :: "SkillDefinition \<Rightarrow> pyexn \<Rightarrow> pyexn" where
  "rewrap skill e =
     (if exn_kind_of e = ImportError
      then PyExn ImportError
             (''Failed to import skill module for '' @ repr_str (name skill) @ '': '' @ exn_str e)
      else if exn_kind_of e = AttributeError
      then PyExn AttributeError
             (''Handler function not found for skill '' @ repr_str (name skill) @ '': ''
                @ exn_str e)
      else e)"

definition execute_script_skill ::
  "world \<Rightarrow> SkillDefinition \<Rightarrow> (string \<times> py_value) list \<Rightarrow> pyexn + py_value" where
  "execute_script_skill w skill input_data =
     (case execution skill of
        None \<Rightarrow>
          Inl (PyExn ValueError
            (''Script skill '' @ repr_str (name skill) @ '' missing execution config''))
      | Some ec \<Rightarrow>
          (case importer w (module_path skill ec) of
             Inl e \<Rightarrow> Inl (rewrap skill e)
           | Inr skill_module \<Rightarrow>
               (case map_of skill_module (function_name ec) of
                  None \<Rightarrow>
                    Inl (rewrap skill (PyExn AttributeError
                      (''Function '' @ repr_str (function_name ec) @ '' not found in module ''
                         @ repr_str (module_path skill ec))))
                | Some handler_func \<Rightarrow>
                    (case handler_func (PDict input_data) of
                       Inl e \<Rightarrow> Inl (rewrap skill e)
                     | Inr result \<Rightarrow> Inr result))))"

definition execute_hybrid_skill ::
  "world \<Rightarrow> SkillDefinition \<Rightarrow> (string \<times> py_value) list \<Rightarrow> pyexn + py_value" where
  "execute_hybrid_skill w skill input_data = execute_script_skill w skill input_data"

definition dispatch ::
  "world \<Rightarrow> SkillDefinition \<Rightarrow> (string \<times> py_value) list \<Rightarrow> pyexn + py_value" where
  "dispatch w skill input_data =
     (case type skill of
        PURE_PROMPT \<Rightarrow> execute_prompt_skill skill input_data
      | PURE_SCRIPT \<Rightarrow> execute_script_skill w skill input_data
      | HYBRID \<Rightarrow> execute_hybrid_skill w skill input_data)"

text \<open>
  \<^verbatim>\<open>execute\<close>: \<open>t0\<close> and \<open>t1\<close> are the two readings of \<^verbatim>\<open>time.time()\<close>, before the
  dispatch and after it. The result is the exception that leaves \<^verbatim>\<open>execute\<close> or the
  \<^verbatim>\<open>SkillResult\<close> it returns, with the executor as the call leaves it. The \<^verbatim>\<open>context\<close>
  argument is never read by the source and is left out.
\<close>

definition execute ::
  "world \<Rightarrow> SkillExecutor \<Rightarrow> string \<Rightarrow> (string \<times> py_value) list \<Rightarrow> real \<Rightarrow> real
     \<Rightarrow> (pyexn + SkillResult) \<times> SkillExecutor" where
  "execute w ex skill_name input_data t0 t1 =
     (case ensure_loaded (fs w) ex of
        Inl e \<Rightarrow> (Inl e, ex)
      | Inr ex1 \<Rightarrow>
          (case load_full (fs w) (registry ex1) skill_name of
             (Inl e, r) \<Rightarrow> (Inl e, ex1\<lparr>registry := r\<rparr>)
           | (Inr skill, r) \<Rightarrow>
               (case dispatch w skill input_data of
                  Inr out \<Rightarrow>
                    (Inr \<lparr>success = True, output_value = out, error = None,
                          execution_time = t1 - t0\<rparr>, ex1\<lparr>registry := r\<rparr>)
                | Inl e \<Rightarrow>
                    (Inr \<lparr>success = False, output_value = PNone, error = Some (exn_str e),
                          execution_time = t1 - t0\<rparr>, ex1\<lparr>registry := r\<rparr>))))"

text \<open>
  An entry of the list given to \<^verbatim>\<open>execute_batch\<close>: a dictionary in which the key
  \<^verbatim>\<open>skill_name\<close> is read with \<^verbatim>\<open>exec['skill_name']\<close> and \<^verbatim>\<open>input_data\<close> with
  \<^verbatim>\<open>exec.get('input_data', {})\<close>.
\<close>

record batch_entry =
  b_skill_name :: "string option"
  b_input_data :: "(string \<times> py_value) list option"

text \<open>
  The coroutines given to \<^verbatim>\<open>asyncio.gather\<close> start in list order and the registry code has
  no suspension point, so the registry is threaded through the entries in list order.
  \<open>clock i\<close> gives the two clock readings of the \<open>i\<close>-th call. A raising call does not
  stop the later ones; \<^verbatim>\<open>gather\<close> hands the first exception to the caller.
\<close>

fun run_tasks ::
  "world \<Rightarrow> (nat \<Rightarrow> real \<times> real) \<Rightarrow> nat \<Rightarrow> (string \<times> (string \<times> py_value) list) list
     \<Rightarrow> SkillExecutor \<Rightarrow> (pyexn + SkillResult) list \<times> SkillExecutor" where
  "run_tasks w clock i [] ex = ([], ex)"
| "run_tasks w clock i ((n, inp) # rest) ex =
     (case execute w ex n inp (fst (clock i)) (snd (clock i)) of
        (res, ex1) \<Rightarrow>
          (case run_tasks w clock (Suc i) rest ex1 of
             (ress, ex2) \<Rightarrow> (res # ress, ex2)))"

fun gather :: "(pyexn + 'a) list \<Rightarrow> pyexn + 'a list" where
  "gather [] = Inr []"
| "gather (Inl e # rs) = Inl e"
| "gather (Inr x # rs) = (case gather rs of Inl e \<Rightarrow> Inl e | Inr xs \<Rightarrow> Inr (x # xs))"

fun make_tasks :: "batch_entry list \<Rightarrow> pyexn + (string \<times> (string \<times> py_value) list) list" where
  "make_tasks [] = Inr []"
| "make_tasks (b # bs) =
     (case b_skill_name b of
        None \<Rightarrow> Inl (PyExn KeyError (repr_str ''skill_name''))
      | Some n \<Rightarrow>
          (case make_tasks bs of
             Inl e \<Rightarrow> Inl e
           | Inr ts \<Rightarrow> Inr ((n, (case b_input_data b of None \<Rightarrow> [] | Some d \<Rightarrow> d)) # ts)))"

definition execute_batch ::
  "world \<Rightarrow> SkillExecutor \<Rightarrow> batch_entry list \<Rightarrow> (nat \<Rightarrow> real \<times> real)
     \<Rightarrow> (pyexn + SkillResult list) \<times> SkillExecutor" where
  "execute_batch w ex executions clock =
     (case ensure_loaded (fs w) ex of
        Inl e \<Rightarrow> (Inl e, ex)
      | Inr ex1 \<Rightarrow>
          (case make_tasks executions of
             Inl e \<Rightarrow> (Inl e, ex1)
           | Inr tasks \<Rightarrow>
               (case run_tasks w clock 0 tasks ex1 of
                  (ress, ex2) \<Rightarrow> (gather ress, ex2))))"

definition list_skills :: "SkillExecutor \<Rightarrow> string list option \<Rightarrow> SkillMetadata list" where
  "list_skills ex tag_filter =
     (if \<not> executor_loaded ex then [] else registry_list (registry ex) tag_filter)"

section \<open>Sequences of registry calls\<close>

text \<open>
  The public methods of the registry as calls on its state. A call that raises leaves the
  state as the raise leaves it; the read-only methods do not change it.
\<close>

datatype registry_call =
    CallScan file_system
  | CallLoadFull file_system string
  | CallList "string list option"
  | CallGetFull string
  | CallIsLoaded
  | CallGetSkillNames
  | CallClearCache

fun after_call :: "SkillRegistry \<Rightarrow> registry_call \<Rightarrow> SkillRegistry" where
  "after_call r (CallScan f) = (case scan f r of Inl e \<Rightarrow> r | Inr (r', ws) \<Rightarrow> r')"
| "after_call r (CallLoadFull f n) = snd (load_full f r n)"
| "after_call r CallClearCache = clear_cache r"
| "after_call r c = r"

definition after_calls :: "SkillRegistry \<Rightarrow> registry_call list \<Rightarrow> SkillRegistry" where
  "after_calls r cs = foldl after_call r cs"

section \<open>Well-formed descriptors\<close>

text \<open>
  What makes a descriptor well formed for the source, as a predicate on the descriptor:
  the file parses to a mapping; \<^verbatim>\<open>name\<close>, \<^verbatim>\<open>version\<close> and \<^verbatim>\<open>description\<close> are there and
  each is a string (or a number, where pydantic turns numbers into strings); \<^verbatim>\<open>tags\<close> is
  absent or a list of such values; and \<^verbatim>\<open>type\<close> is absent (then the skill is pure-script)
  or one of the three type names. \<open>record_of\<close> is the metadata that such a descriptor
  describes: the string forms of the values.
\<close>

definition accepted_str :: "bool \<Rightarrow> py_value \<Rightarrow> bool" where
  "accepted_str coerce v =
     (case v of
        PStr s \<Rightarrow> True
      | PInt i \<Rightarrow> coerce
      | PBool b \<Rightarrow> coerce
      | PFloat s \<Rightarrow> coerce
      | _ \<Rightarrow> False)"

definition accepted_tags :: "bool \<Rightarrow> py_value \<Rightarrow> bool" where
  "accepted_tags coerce v = (case v of PList xs \<Rightarrow> list_all (accepted_str coerce) xs | _ \<Rightarrow> False)"

definition valid_type_name :: "string \<Rightarrow> bool" where
  "valid_type_name s = (s = ''pure-prompt'' \<or> s = ''pure-script'' \<or> s = ''hybrid'')"

definition accepted_type :: "py_value \<Rightarrow> bool" where
  "accepted_type v = (case v of PStr s \<Rightarrow> valid_type_name s | _ \<Rightarrow> False)"

definition well_formed_config :: "bool \<Rightarrow> config \<Rightarrow> bool" where
  "well_formed_config coerce c =
     ((case c_name c of None \<Rightarrow> False | Some v \<Rightarrow> accepted_str coerce v) \<and>
      (case c_version c of None \<Rightarrow> False | Some v \<Rightarrow> accepted_str coerce v) \<and>
      (case c_description c of None \<Rightarrow> False | Some v \<Rightarrow> accepted_str coerce v) \<and>
      (case c_tags c of None \<Rightarrow> True | Some v \<Rightarrow> accepted_tags coerce v) \<and>
      (case c_type c of None \<Rightarrow> True | Some v \<Rightarrow> accepted_type v))"

definition type_of_name :: "string \<Rightarrow> SkillType" where
  "type_of_name s =
     (if s = ''pure-prompt'' then PURE_PROMPT else if s = ''hybrid'' then HYBRID
      else PURE_SCRIPT)"

definition record_of :: "config \<Rightarrow> SkillMetadata" where
  "record_of c =
     \<lparr>name = (case c_name c of None \<Rightarrow> [] | Some v \<Rightarrow> py_str v),
      version = (case c_version c of None \<Rightarrow> [] | Some v \<Rightarrow> py_str v),
      description = (case c_description c of None \<Rightarrow> [] | Some v \<Rightarrow> py_str v),
      tags = (case c_tags c of Some (PList xs) \<Rightarrow> map py_str xs | _ \<Rightarrow> []),
      type = (case c_type c of Some (PStr t) \<Rightarrow> type_of_name t | _ \<Rightarrow> PURE_SCRIPT)\<rparr>"

definition well_formed_record :: "bool \<Rightarrow> dir_entry \<Rightarrow> SkillMetadata option" where
  "well_formed_record coerce e =
     (case skill_yaml e of
        Some (Parsed c) \<Rightarrow> if well_formed_config coerce c then Some (record_of c) else None
      | _ \<Rightarrow> None)"

definition well_formed_records :: "file_system \<Rightarrow> SkillMetadata list" where
  "well_formed_records f =
     List.map_filter (well_formed_record (pydantic_coerces_numbers f)) (map snd (candidates f))"

definition malformed :: "file_system \<Rightarrow> dir_entry list" where
  "malformed f =
     filter (\<lambda>e. well_formed_record (pydantic_coerces_numbers f) e = None) (map snd (candidates f))"

definition install_all ::
  "(string \<times> SkillMetadata) list \<Rightarrow> SkillMetadata list \<Rightarrow> (string \<times> SkillMetadata) list" where
  "install_all md ms = foldl (\<lambda>d m. dict_set d (name m) m) md ms"

text \<open>The warnings that a scan prints.\<close>

definition scan_warnings :: "file_system \<Rightarrow> SkillRegistry \<Rightarrow> string list" where
  "scan_warnings f r = snd (install_results (scan_tasks f r) (metadata r) [])"

section \<open>Template substitution as the specification words it\<close>

text \<open>
  A template read as a sequence of parts: text, placeholders \<^verbatim>\<open>{{key}}\<close> and placeholders
  \<^verbatim>\<open>{key}\<close>. \<open>spec_content\<close> is the substitution of the specification: every placeholder
  whose key is a key of the input is replaced by the string form of the key's value, and
  text that has been put in is not scanned again. A part is plain when its text or key
  has no brace, an item of the input when neither its key nor the string form of its
  value has one. \<open>fill_double\<close>, \<open>fill_single\<close> and \<open>fill_part\<close> replace placeholders
  part by part.
\<close>

datatype template_part = TText string | TDouble string | TSingle string

definition placeholder1 :: "string \<Rightarrow> string" where
  "placeholder1 k = ''{'' @ k @ ''}''"

definition placeholder2 :: "string \<Rightarrow> string" where
  "placeholder2 k = ''{{'' @ k @ ''}}''"

fun part_text :: "template_part \<Rightarrow> string" where
  "part_text (TText s) = s"
| "part_text (TDouble k) = placeholder2 k"
| "part_text (TSingle k) = placeholder1 k"

definition template_text :: "template_part list \<Rightarrow> string" where
  "template_text parts = concat (map part_text parts)"

fun spec_fill :: "(string \<times> py_value) list \<Rightarrow> template_part \<Rightarrow> string" where
  "spec_fill input_data (TText s) = s"
| "spec_fill input_data (TDouble k) =
     (case dict_get input_data k of None \<Rightarrow> placeholder2 k | Some v \<Rightarrow> py_str v)"
| "spec_fill input_data (TSingle k) =
     (case dict_get input_data k of None \<Rightarrow> placeholder1 k | Some v \<Rightarrow> py_str v)"

definition spec_content :: "template_part list \<Rightarrow> (string \<times> py_value) list \<Rightarrow> string" where
  "spec_content parts input_data = concat (map (spec_fill input_data) parts)"

definition brace_free :: "string \<Rightarrow> bool" where
  "brace_free s = (CHR ''{'' \<notin> set s \<and> CHR ''}'' \<notin> set s)"

fun plain_part :: "template_part \<Rightarrow> bool" where
  "plain_part (TText s) = brace_free s"
| "plain_part (TDouble k) = brace_free k"
| "plain_part (TSingle k) = brace_free k"

definition plain_item :: "string \<times> py_value \<Rightarrow> bool" where
  "plain_item kv = (brace_free (fst kv) \<and> brace_free (py_str (snd kv)))"

fun fill_double :: "string \<Rightarrow> string \<Rightarrow> template_part \<Rightarrow> template_part" where
  "fill_double k v (TDouble k') = (if k' = k then TText v else TDouble k')"
| "fill_double k v p = p"

fun fill_single :: "string \<Rightarrow> string \<Rightarrow> template_part \<Rightarrow> template_part" where
  "fill_single k v (TSingle k') = (if k' = k then TText v else TSingle k')"
| "fill_single k v p = p"

fun fill_part :: "(string \<times> py_value) list \<Rightarrow> template_part \<Rightarrow> template_part" where
  "fill_part input_data (TText s) = TText s"
| "fill_part input_data (TDouble k) =
     (case dict_get input_data k of None \<Rightarrow> TDouble k | Some v \<Rightarrow> TText (py_str v))"
| "fill_part input_data (TSingle k) =
     (case dict_get input_data k of None \<Rightarrow> TSingle k | Some v \<Rightarrow> TText (py_str v))"

section \<open>A sample skills directory\<close>

text \<open>
  A directory with skills of each type and the descriptors that the claims turn on:
  \<open>greet\<close> is a pure-prompt skill with a template, \<open>calc\<close>, \<open>quiet\<close>, \<open>fail\<close> and
  \<open>probe\<close> are pure-script skills, \<open>lookup\<close> is a hybrid skill, \<open>bare\<close> a pure-prompt
  skill without a template, \<open>noexec\<close> a pure-script skill without an execution block,
  \<open>blank\<close> a pure-prompt skill whose template is the empty string, \<open>broken\<close> a
  descriptor without a \<^verbatim>\<open>name\<close> field, and \<open>nulltags\<close> a descriptor whose \<^verbatim>\<open>tags\<close> key
  has no value.
\<close>

definition mk_config ::
  "string \<Rightarrow> string \<Rightarrow> string option \<Rightarrow> raw_execution option option \<Rightarrow> config" where
  "mk_config n ty tmpl ex =
     \<lparr>c_name = Some (PStr n), c_version = Some (PStr ''1.0.0''),
      c_description = Some (PStr ''a sample skill''),
      c_tags = Some (PList [PStr ''sample'']), c_type = Some (PStr ty), c_input_schema = None,
      c_output_schema = None, c_prompt_template = tmpl, c_execution = ex\<rparr>"

definition skill_dir :: "config \<Rightarrow> dir_entry" where
  "skill_dir c = \<lparr>is_dir = True, skill_yaml = Some (Parsed c)\<rparr>"

definition default_exec :: "raw_execution option option" where
  "default_exec = Some (Some \<lparr>r_handler = None, r_function = None, r_timeout = None\<rparr>)"

definition sample_fs :: file_system where
  "sample_fs =
     \<lparr>root_exists = True, listing_error = None, pydantic_coerces_numbers = False,
      entries =
        [(''greet'', skill_dir (mk_config ''greet'' ''pure-prompt''
                       (Some ''Hello {{name}}, age {age}'') None)),
         (''calc'', skill_dir (mk_config ''calc'' ''pure-script'' None default_exec)),
         (''quiet'', skill_dir (mk_config ''quiet'' ''pure-script'' None default_exec)),
         (''fail'', skill_dir (mk_config ''fail'' ''pure-script'' None default_exec)),
         (''probe'', skill_dir (mk_config ''probe'' ''pure-script'' None default_exec)),
         (''lookup'', skill_dir (mk_config ''lookup'' ''hybrid'' (Some ''Find {query}'')
                       default_exec)),
         (''bare'', skill_dir (mk_config ''bare'' ''pure-prompt'' None None)),
         (''noexec'', skill_dir (mk_config ''noexec'' ''pure-script'' None None)),
         (''blank'', skill_dir (mk_config ''blank'' ''pure-prompt'' (Some []) None)),
         (''broken'', skill_dir ((mk_config ''broken'' ''pure-script'' None default_exec)
                       \<lparr>c_name := None\<rparr>)),
         (''nulltags'', skill_dir ((mk_config ''nulltags'' ''pure-script'' None default_exec)
                       \<lparr>c_tags := Some PNone\<rparr>))]\<rparr>"

text \<open>
  The handlers: that of \<open>calc\<close> and that of \<open>lookup\<close> return their input, that of
  \<open>quiet\<close> returns \<^verbatim>\<open>None\<close>, that of \<open>fail\<close> raises an exception that is neither an
  \<^verbatim>\<open>ImportError\<close> nor an \<^verbatim>\<open>AttributeError\<close>, and that of \<open>probe\<close> raises an
  \<^verbatim>\<open>AttributeError\<close> while it runs.
\<close>

definition sample_importer :: "string \<Rightarrow> pyexn + py_module" where
  "sample_importer p =
     (if p = ''skills.calc.handler'' \<or> p = ''skills.lookup.handler''
        then Inr [(''execute'', \<lambda>v. Inr v)]
      else if p = ''skills.quiet.handler'' then Inr [(''execute'', \<lambda>v. Inr PNone)]
      else if p = ''skills.fail.handler''
        then Inr [(''execute'', \<lambda>v. Inl (PyExn OtherError ''boom''))]
      else if p = ''skills.probe.handler''
        then Inr [(''execute'',
                   \<lambda>v. Inl (PyExn AttributeError ''NoneType object has no attribute get''))]
      else Inl (PyExn ImportError (''No module named '' @ repr_str p)))"

definition sample_world :: world where
  "sample_world = \<lparr>fs = sample_fs, importer = sample_importer\<rparr>"

definition sample_registry :: SkillRegistry where
  "sample_registry = after_call (init_registry ''skills'') (CallScan sample_fs)"

definition sample_executor :: SkillExecutor where
  "sample_executor = \<lparr>registry = sample_registry, executor_loaded = True\<rparr>"

definition no_fs :: file_system where
  "no_fs =
     \<lparr>root_exists = False, listing_error = None, pydantic_coerces_numbers = False,
      entries = []\<rparr>"

definition greet_definition :: SkillDefinition where
  "greet_definition =
     \<lparr>name = ''greet'', version = ''1.0.0'', description = ''a sample skill'',
      tags = [''sample''], type = PURE_PROMPT,
      input_schema = default_input_schema, output_schema = default_output_schema,
      prompt_template = Some ''Hello {{name}}, age {age}'', execution = None\<rparr>"

text \<open>What the catalog and the cache hold for some of the sample skills.\<close>

definition blank_definition :: SkillDefinition where
  "blank_definition =
     \<lparr>name = ''blank'', version = ''1.0.0'', description = ''a sample skill'',
      tags = [''sample''], type = PURE_PROMPT,
      input_schema = default_input_schema, output_schema = default_output_schema,
      prompt_template = Some [], execution = None\<rparr>"








text \<open>Two skill directories whose descriptors carry the same \<^verbatim>\<open>name\<close>.\<close>

definition twin_fs :: file_system where
  "twin_fs =
     \<lparr>root_exists = True, listing_error = None, pydantic_coerces_numbers = False,
      entries =
        [(''first'', skill_dir (mk_config ''twin'' ''pure-script'' None default_exec)),
         (''second'', skill_dir (mk_config ''twin'' ''hybrid'' None default_exec))]\<rparr>"

text \<open>
  A root path that is a file, and a directory whose one descriptor has no \<^verbatim>\<open>type\<close>.
\<close>

definition not_a_directory :: string where
  "not_a_directory = ''[Errno 20] Not a directory: '' @ repr_str ''skills''"

definition file_root_fs :: file_system where
  "file_root_fs =
     \<lparr>root_exists = True,
      listing_error = Some (PyExn NotADirectoryError not_a_directory),
      pydantic_coerces_numbers = False, entries = []\<rparr>"

definition untyped_fs :: file_system where
  "untyped_fs =
     \<lparr>root_exists = True, listing_error = None, pydantic_coerces_numbers = False,
      entries =
        [(''plain'', skill_dir ((mk_config ''plain'' ''pure-script'' None default_exec)
                       \<lparr>c_type := None\<rparr>))]\<rparr>"

text \<open>A skills directory with two pure-prompt skills: \<open>chain\<close> and \<open>echo\<close>.\<close>

definition chain_fs :: file_system where
  "chain_fs =
     \<lparr>root_exists = True, listing_error = None, pydantic_coerces_numbers = False,
      entries =
        [(''chain'', skill_dir (mk_config ''chain'' ''pure-prompt'' (Some ''{a}'') None)),
         (''echo'', skill_dir (mk_config ''echo'' ''pure-prompt'' (Some ''{{k}}'') None))]\<rparr>"

definition chain_world :: world where
  "chain_world = \<lparr>fs = chain_fs, importer = sample_importer\<rparr>"

section \<open>Dictionaries\<close>

lemma dict_get_dict_set:
  "dict_get (dict_set d k v) k' = (if k' = k then Some v else dict_get d k')"
  by (induction d) (auto simp: dict_get_def)

section \<open>The definition cache\<close>

lemma scan_keeps_cache:
  "scan f r = Inr (r', ws) \<Longrightarrow> full_definitions r' = full_definitions r"
  by (auto simp: scan_def split: if_splits prod.splits option.splits)

lemma load_full_keeps_cached:
  "dict_get (full_definitions r) n = Some d \<Longrightarrow>
   dict_get (full_definitions (snd (load_full f r m))) n = Some d"
  by (auto simp: load_full_def dict_get_dict_set Let_def split: option.splits descriptor.splits)

lemma load_full_caches:
  "load_full f r n = (Inr d, r1) \<Longrightarrow> dict_get (full_definitions r1) n = Some d"
  by (auto simp: load_full_def dict_get_dict_set Let_def split: option.splits descriptor.splits)

lemma load_full_hit:
  "dict_get (full_definitions r) n = Some d \<Longrightarrow> load_full f r n = (Inr d, r)"
  by (simp add: load_full_def)

lemma after_call_keeps_cached:
  "dict_get (full_definitions r) n = Some d \<Longrightarrow> c \<noteq> CallClearCache \<Longrightarrow>
   dict_get (full_definitions (after_call r c)) n = Some d"
  by (cases c) (auto simp: load_full_keeps_cached dest: scan_keeps_cache split: sum.splits)

lemma after_calls_keeps_cached:
  "dict_get (full_definitions r) n = Some d \<Longrightarrow> CallClearCache \<notin> set cs \<Longrightarrow>
   dict_get (full_definitions (after_calls r cs)) n = Some d"
  unfolding after_calls_def
  by (induction cs arbitrary: r) (auto simp: after_call_keeps_cached)

lemma sample_load_greet:
  "fst (load_full sample_fs sample_registry ''greet'') = Inr greet_definition"
  by code_simp

text \<open>
  C8. Once \<^verbatim>\<open>load_full\<close> has succeeded for a name, every later \<^verbatim>\<open>load_full\<close> for that name
  returns the same definition and leaves the registry as it is, after any sequence of
  registry calls that contains no \<^verbatim>\<open>clear_cache\<close>, and whatever the skills directory holds
  by then (\<open>f'\<close> is arbitrary): the descriptor is not read again. Python's object identity
  is equality of the definition here; a definition is never modified after it is built.
\<close>

theorem load_full_identity_stable:
  assumes "load_full f r n = (Inr d, r1)" and "CallClearCache \<notin> set cs"
  shows "load_full f' (after_calls r1 cs) n = (Inr d, after_calls r1 cs)"
  using assms by (intro load_full_hit after_calls_keeps_cached load_full_caches)

theorem load_full_identity_stable_witness:
  "fst (load_full sample_fs sample_registry ''greet'') = Inr greet_definition \<and>
   CallClearCache \<notin> set [CallScan sample_fs, CallLoadFull sample_fs ''calc'', CallList None] \<and>
   load_full no_fs
     (after_calls (snd (load_full sample_fs sample_registry ''greet''))
        [CallScan sample_fs, CallLoadFull sample_fs ''calc'', CallList None]) ''greet'' =
     (Inr greet_definition,
      after_calls (snd (load_full sample_fs sample_registry ''greet''))
        [CallScan sample_fs, CallLoadFull sample_fs ''calc'', CallList None])"
proof -
  have h: "load_full sample_fs sample_registry ''greet'' =
        (Inr greet_definition, snd (load_full sample_fs sample_registry ''greet''))"
    by (rule prod_eqI) (simp_all add: sample_load_greet)
  have c: "CallClearCache \<notin> set [CallScan sample_fs, CallLoadFull sample_fs ''calc'', CallList None]"
    by simp
  show ?thesis
    using sample_load_greet c load_full_identity_stable [OF h c, of no_fs] by simp
qed

text \<open>
  C9. \<^verbatim>\<open>clear_cache\<close> empties the cache of full definitions and changes nothing else:
  the catalog, the loaded flag and the directory are the same, so \<^verbatim>\<open>list\<close>,
  \<^verbatim>\<open>get_skill_names\<close> and \<^verbatim>\<open>is_loaded\<close> answer as before. A \<^verbatim>\<open>load_full\<close> right after it
  never answers from the cache: for a name of the catalog it reads the descriptor that the
  directory holds now and builds the definition from it (or raises what the read raises),
  for any other name it raises the not-found error.
\<close>

theorem clear_cache_frame:
  "full_definitions (clear_cache r) = [] \<and>
   metadata (clear_cache r) = metadata r \<and>
   loaded (clear_cache r) = loaded r \<and>
   skills_dir (clear_cache r) = skills_dir r \<and>
   registry_list (clear_cache r) t = registry_list r t \<and>
   get_skill_names (clear_cache r) = get_skill_names r \<and>
   is_loaded (clear_cache r) = is_loaded r \<and>
   get_full (clear_cache r) n = None \<and>
   load_full f (clear_cache r) n =
     (case dict_get (metadata r) n of
        None \<Rightarrow>
          (Inl (PyExn ValueError (not_found_message n (dict_keys (metadata r)))), clear_cache r)
      | Some m \<Rightarrow>
          (case read_descriptor f n of
             None \<Rightarrow>
               (Inl (PyExn FileNotFoundError (''skill.yaml not found for '' @ repr_str n)),
                clear_cache r)
           | Some (Unreadable e) \<Rightarrow> (Inl e, clear_cache r)
           | Some (Parsed c) \<Rightarrow>
               (Inr (build_definition m c),
                (clear_cache r)\<lparr>full_definitions := [(n, build_definition m c)]\<rparr>)))"
  by (simp add: clear_cache_def registry_list_def get_skill_names_def is_loaded_def get_full_def
      load_full_def dict_get_def Let_def split: option.splits descriptor.splits)

text \<open>
  C10. \<^verbatim>\<open>list\<close> with an empty tag list returns every metadata record of the catalog, as
  \<^verbatim>\<open>list\<close> without a tag filter does: the empty filter filters nothing.
\<close>

theorem list_empty_filter:
  "registry_list r (Some []) = registry_list r None \<and>
   registry_list r (Some []) = dict_values (metadata r)"
  by (simp add: registry_list_def)

section \<open>Scanning\<close>

lemma validate_str_accepted:
  "validate_str cn v = (if accepted_str cn v then Some (py_str v) else None)"
  by (cases v) (simp_all add: validate_str_def accepted_str_def)

lemma those_validate_str:
  "those (map (validate_str cn) xs) =
     (if list_all (accepted_str cn) xs then Some (map py_str xs) else None)"
  by (induction xs) (simp_all add: validate_str_accepted)

lemma validate_tags_accepted:
  "validate_tags cn v =
     (if accepted_tags cn v then Some (case v of PList xs \<Rightarrow> map py_str xs | _ \<Rightarrow> []) else None)"
  by (cases v) (simp_all add: validate_tags_def accepted_tags_def those_validate_str)

lemma parse_SkillType_accepted:
  "accepted_type v \<Longrightarrow>
   parse_SkillType v = Inr (case v of PStr t \<Rightarrow> type_of_name t | _ \<Rightarrow> PURE_SCRIPT)"
  by (cases v)
     (auto simp: accepted_type_def valid_type_name_def parse_SkillType_def type_of_name_def)

lemma parse_SkillType_rejected: "\<not> accepted_type v \<Longrightarrow> isl (parse_SkillType v)"
  by (cases v) (auto simp: accepted_type_def valid_type_name_def parse_SkillType_def)

lemma new_SkillMetadata_accepted:
  "accepted_str cn nv \<Longrightarrow> accepted_str cn vv \<Longrightarrow> accepted_str cn dv \<Longrightarrow> accepted_tags cn tv \<Longrightarrow>
   new_SkillMetadata cn nv vv dv tv ty =
     Inr \<lparr>name = py_str nv, version = py_str vv, description = py_str dv,
          tags = (case tv of PList xs \<Rightarrow> map py_str xs | _ \<Rightarrow> []), type = ty\<rparr>"
  by (simp add: new_SkillMetadata_def validate_str_accepted validate_tags_accepted)

lemma new_SkillMetadata_rejected:
  "\<not> (accepted_str cn nv \<and> accepted_str cn vv \<and> accepted_str cn dv \<and> accepted_tags cn tv) \<Longrightarrow>
   isl (new_SkillMetadata cn nv vv dv tv ty)"
  by (auto simp: new_SkillMetadata_def validate_str_accepted validate_tags_accepted)

lemma load_metadata_parsed_well_formed:
  assumes "well_formed_config cn c"
  shows "load_metadata cn p (Some (Parsed c)) = Inr (record_of c)"
proof -
  from assms obtain nv vv dv where f: "c_name c = Some nv" "c_version c = Some vv"
      "c_description c = Some dv"
    and a: "accepted_str cn nv" "accepted_str cn vv" "accepted_str cn dv"
    by (auto simp: well_formed_config_def split: option.splits)
  let ?tv = "case c_tags c of None \<Rightarrow> PList [] | Some ts \<Rightarrow> ts"
  let ?yv = "case c_type c of None \<Rightarrow> PStr ''pure-script'' | Some t \<Rightarrow> t"
  from assms have t: "accepted_tags cn ?tv"
    by (auto simp: well_formed_config_def accepted_tags_def split: option.splits)
  from assms have y: "accepted_type ?yv"
    by (auto simp: well_formed_config_def accepted_type_def valid_type_name_def
        split: option.splits)
  have ty: "(case ?yv of PStr t \<Rightarrow> type_of_name t | _ \<Rightarrow> PURE_SCRIPT) =
      (case c_type c of Some (PStr t) \<Rightarrow> type_of_name t | _ \<Rightarrow> PURE_SCRIPT)"
    by (simp add: type_of_name_def split: option.splits)
  have tg: "(case ?tv of PList xs \<Rightarrow> map py_str xs | _ \<Rightarrow> []) =
      (case c_tags c of Some (PList xs) \<Rightarrow> map py_str xs | _ \<Rightarrow> [])"
    by (simp split: option.splits)
  have "load_metadata cn p (Some (Parsed c)) =
      new_SkillMetadata cn nv vv dv ?tv
        (case ?yv of PStr t \<Rightarrow> type_of_name t | _ \<Rightarrow> PURE_SCRIPT)"
    by (simp add: load_metadata_def f parse_SkillType_accepted [OF y])
  also have "\<dots> = Inr (record_of c)"
    by (simp add: new_SkillMetadata_accepted [OF a t] record_of_def f ty tg)
  finally show ?thesis .
qed

lemma load_metadata_parsed_malformed:
  assumes "\<not> well_formed_config cn c"
  shows "isl (load_metadata cn p (Some (Parsed c)))"
proof (cases "c_name c = None \<or> c_version c = None \<or> c_description c = None")
  case True
  then show ?thesis by (auto simp: load_metadata_def split: option.splits)
next
  case False
  then obtain nv vv dv where f: "c_name c = Some nv" "c_version c = Some vv"
      "c_description c = Some dv"
    by auto
  let ?tv = "case c_tags c of None \<Rightarrow> PList [] | Some ts \<Rightarrow> ts"
  let ?yv = "case c_type c of None \<Rightarrow> PStr ''pure-script'' | Some t \<Rightarrow> t"
  show ?thesis
  proof (cases "accepted_type ?yv")
    case False
    from parse_SkillType_rejected [OF this] obtain x where "parse_SkillType ?yv = Inl x"
      by (cases "parse_SkillType ?yv") auto
    then show ?thesis by (simp add: load_metadata_def f)
  next
    case True
    have yt: "(case c_type c of None \<Rightarrow> True | Some v \<Rightarrow> accepted_type v)"
      using True by (simp split: option.splits)
    have tt: "(case c_tags c of None \<Rightarrow> True | Some v \<Rightarrow> accepted_tags cn v) = accepted_tags cn ?tv"
      by (simp add: accepted_tags_def split: option.splits)
    from assms f yt tt
    have "\<not> (accepted_str cn nv \<and> accepted_str cn vv \<and> accepted_str cn dv \<and> accepted_tags cn ?tv)"
      by (simp add: well_formed_config_def)
    from new_SkillMetadata_rejected [OF this]
    have "isl (new_SkillMetadata cn nv vv dv ?tv ty)" for ty .
    then show ?thesis
      by (simp add: load_metadata_def f parse_SkillType_accepted [OF True])
  qed
qed

lemma load_metadata_well_formed:
  "well_formed_record cn e = Some m \<Longrightarrow> load_metadata cn p (skill_yaml e) = Inr m"
  by (auto simp: well_formed_record_def load_metadata_parsed_well_formed
      split: option.splits descriptor.splits if_splits)

lemma load_metadata_malformed:
  assumes "well_formed_record cn e = None"
  shows "isl (load_metadata cn p (skill_yaml e))"
proof (cases "skill_yaml e")
  case None
  then show ?thesis by (simp add: load_metadata_def)
next
  case (Some d)
  show ?thesis
  proof (cases d)
    case (Unreadable x)
    with Some show ?thesis by (simp add: load_metadata_def)
  next
    case (Parsed c)
    with Some assms have "\<not> well_formed_config cn c"
      by (simp add: well_formed_record_def split: if_splits)
    with Some Parsed show ?thesis by (simp add: load_metadata_parsed_malformed)
  qed
qed

lemma install_results_records:
  "fst (install_results (map (\<lambda>(n, e). load_metadata cn (pj n) (skill_yaml e)) cs) md ws) =
   install_all md (List.map_filter (well_formed_record cn) (map snd cs))"
proof (induction cs arbitrary: md ws)
  case Nil
  then show ?case by (simp add: install_all_def map_filter_simps)
next
  case (Cons c cs)
  obtain n e where c: "c = (n, e)" by (cases c)
  show ?case
  proof (cases "well_formed_record cn e")
    case None
    then obtain x where "load_metadata cn (pj n) (skill_yaml e) = Inl x"
      using load_metadata_malformed [of cn e "pj n"] by (cases "load_metadata cn (pj n) (skill_yaml e)") auto
    with None c Cons.IH show ?thesis by (simp add: map_filter_simps)
  next
    case (Some m)
    then have "load_metadata cn (pj n) (skill_yaml e) = Inr m"
      by (rule load_metadata_well_formed)
    with Some c Cons.IH [of "dict_set md (name m) m" ws] show ?thesis
      by (simp add: map_filter_simps install_all_def)
  qed
qed

lemma install_results_warnings:
  "length (snd (install_results (map (\<lambda>(n, e). load_metadata cn (pj n) (skill_yaml e)) cs) md ws)) =
   length ws + length (filter (\<lambda>e. well_formed_record cn e = None) (map snd cs))"
proof (induction cs arbitrary: md ws)
  case Nil
  then show ?case by simp
next
  case (Cons c cs)
  obtain n e where c: "c = (n, e)" by (cases c)
  show ?case
  proof (cases "well_formed_record cn e")
    case None
    then obtain x where "load_metadata cn (pj n) (skill_yaml e) = Inl x"
      using load_metadata_malformed [of cn e "pj n"] by (cases "load_metadata cn (pj n) (skill_yaml e)") auto
    with None c Cons.IH [of md] show ?thesis by simp
  next
    case (Some m)
    then have "load_metadata cn (pj n) (skill_yaml e) = Inr m"
      by (rule load_metadata_well_formed)
    with Some c Cons.IH [of "dict_set md (name m) m" ws] show ?thesis
      by simp
  qed
qed

lemma records_and_malformed:
  "length (well_formed_records f) + length (malformed f) = length (candidates f)"
proof -
  have "length (List.map_filter g xs) + length (filter (\<lambda>e. g e = None) xs) = length xs"
    for g :: "dir_entry \<Rightarrow> SkillMetadata option" and xs
    by (induction xs) (auto simp: map_filter_simps split: option.splits)
  from this [of "well_formed_record (pydantic_coerces_numbers f)" "map snd (candidates f)"]
  show ?thesis
    by (simp add: well_formed_records_def malformed_def)
qed

lemma dict_set_fresh: "k \<notin> fst ` set d \<Longrightarrow> dict_set d k v = d @ [(k, v)]"
  by (induction d) auto

lemma install_all_distinct:
  "distinct (map fst d @ map name ms) \<Longrightarrow> install_all d ms = d @ map (\<lambda>m. (name m, m)) ms"
proof (induction ms arbitrary: d)
  case Nil
  then show ?case by (simp add: install_all_def)
next
  case (Cons m ms)
  from Cons.prems have fresh: "name m \<notin> fst ` set d" by auto
  from Cons.prems have "distinct (map fst (d @ [(name m, m)]) @ map name ms)" by auto
  from Cons.IH [OF this] show ?case
    using fresh by (simp add: install_all_def dict_set_fresh)
qed

lemma find_snoc:
  "find P (xs @ [x]) =
     (case find P xs of Some y \<Rightarrow> Some y | None \<Rightarrow> if P x then Some x else None)"
  by (induction xs) auto

lemma install_all_last_wins:
  "dict_get (install_all md ms) k =
     (case find (\<lambda>m. name m = k) (rev ms) of Some m \<Rightarrow> Some m | None \<Rightarrow> dict_get md k)"
proof (induction ms arbitrary: md)
  case Nil
  then show ?case by (simp add: install_all_def)
next
  case (Cons m ms)
  have "install_all md (m # ms) = install_all (dict_set md (name m) m) ms"
    by (simp add: install_all_def)
  then show ?case
    by (simp add: Cons.IH dict_get_dict_set find_snoc split: option.splits)
qed

text \<open>
  C5, as the source has it. When the root path exists and can be listed, \<^verbatim>\<open>scan\<close>
  raises nothing: it stores the record of every well-formed descriptor under the record's
  name, in listing order, on top of the catalog it had, prints one warning for each
  malformed descriptor and nothing else, and marks the registry loaded. A record stored
  later under the same name replaces the earlier one, and names of earlier scans stay. So
  the catalog holds exactly the \<open>N\<close> well-formed records when it was empty before and
  their names are distinct. A descriptor without \<^verbatim>\<open>type\<close> is well formed. \<^verbatim>\<open>scan\<close> raises
  \<^verbatim>\<open>FileNotFoundError\<close> when the root path does not exist, and what the listing raises
  when the root path exists and cannot be listed (\<^verbatim>\<open>NotADirectoryError\<close> when it is a
  file).
\<close>

theorem scan_installs_well_formed:
  "(root_exists f \<and> listing_error f = None \<longrightarrow>
      scan f r = Inr (r\<lparr>metadata := install_all (metadata r) (well_formed_records f),
                        loaded := True\<rparr>, scan_warnings f r) \<and>
      length (scan_warnings f r) = length (malformed f) \<and>
      length (well_formed_records f) + length (malformed f) = length (candidates f) \<and>
      dict_get (install_all (metadata r) (well_formed_records f)) k =
        (case find (\<lambda>m. name m = k) (rev (well_formed_records f)) of
           Some m \<Rightarrow> Some m
         | None \<Rightarrow> dict_get (metadata r) k) \<and>
      (metadata r = [] \<and> distinct (map name (well_formed_records f)) \<longrightarrow>
         dict_values (install_all (metadata r) (well_formed_records f)) = well_formed_records f)) \<and>
   (\<not> root_exists f \<longrightarrow>
      scan f r = Inl (PyExn FileNotFoundError (''Skills directory not found: '' @ skills_dir r))) \<and>
   (root_exists f \<and> listing_error f = Some e \<longrightarrow> scan f r = Inl e)"
proof -
  have fst_eq: "fst (install_results (scan_tasks f r) (metadata r) []) =
      install_all (metadata r) (well_formed_records f)"
    unfolding scan_tasks_def well_formed_records_def by (rule install_results_records)
  have len: "length (scan_warnings f r) = length (malformed f)"
    unfolding scan_warnings_def scan_tasks_def malformed_def
    by (simp add: install_results_warnings)
  have sc: "root_exists f \<Longrightarrow> listing_error f = None \<Longrightarrow>
      scan f r = Inr (r\<lparr>metadata := install_all (metadata r) (well_formed_records f),
                        loaded := True\<rparr>, scan_warnings f r)"
    using fst_eq
    by (cases "install_results (scan_tasks f r) (metadata r) []")
       (simp add: scan_def scan_warnings_def)
  have dv: "distinct (map name ms) \<Longrightarrow> dict_values (install_all [] ms) = ms" for ms
    using install_all_distinct [of "[]" ms] by (simp add: dict_values_def comp_def)
  have absent: "\<not> root_exists f \<Longrightarrow>
      scan f r = Inl (PyExn FileNotFoundError (''Skills directory not found: '' @ skills_dir r))"
    by (simp add: scan_def)
  have unlisted: "root_exists f \<Longrightarrow> listing_error f = Some e \<Longrightarrow> scan f r = Inl e"
    by (simp add: scan_def)
  show ?thesis
    using sc len records_and_malformed [of f] absent unlisted
      install_all_last_wins [of "metadata r" "well_formed_records f" k]
      dv [of "well_formed_records f"]
    by simp
qed

theorem scan_installs_well_formed_witness:
  "root_exists sample_fs \<and> listing_error sample_fs = None \<and>
   length (well_formed_records sample_fs) = 9 \<and>
   length (malformed sample_fs) = 2 \<and>
   metadata (init_registry ''skills/'') = [] \<and>
   distinct (map name (well_formed_records sample_fs)) \<and>
   registry_list (after_call (init_registry ''skills/'') (CallScan sample_fs)) None =
     well_formed_records sample_fs \<and>
   scan_warnings sample_fs (init_registry ''skills/'') =
     [''Warning: Failed to load skill metadata: Skill missing 'name' field: skills/broken'',
      ''Warning: Failed to load skill metadata: 1 validation error for SkillMetadata''] \<and>
   dict_get (install_all (metadata (init_registry ''skills/'')) (well_formed_records sample_fs))
     ''nulltags'' = None \<and>
   \<not> root_exists no_fs \<and>
   scan no_fs (init_registry ''skills/'') =
     Inl (PyExn FileNotFoundError ''Skills directory not found: skills'') \<and>
   root_exists file_root_fs \<and>
   listing_error file_root_fs = Some (PyExn NotADirectoryError not_a_directory) \<and>
   scan file_root_fs (init_registry ''skills/'') = Inl (PyExn NotADirectoryError not_a_directory)"
proof -
  let ?r = "init_registry ''skills/''"
  have a: "root_exists sample_fs \<and> listing_error sample_fs = None" by (simp add: sample_fs_def)
  have b: "metadata ?r = []" by (simp add: init_registry_def)
  have c: "distinct (map name (well_formed_records sample_fs))" by code_simp
  have d: "length (well_formed_records sample_fs) = 9" by code_simp
  have e: "length (malformed sample_fs) = 2" by code_simp
  have n: "\<not> root_exists no_fs" by (simp add: no_fs_def)
  have u: "root_exists file_root_fs \<and>
      listing_error file_root_fs = Some (PyExn NotADirectoryError not_a_directory)"
    by (simp add: file_root_fs_def)
  have ws: "scan_warnings sample_fs ?r =
     [''Warning: Failed to load skill metadata: Skill missing 'name' field: skills/broken'',
      ''Warning: Failed to load skill metadata: 1 validation error for SkillMetadata'']"
    by code_simp
  have g: "find (\<lambda>m. name m = ''nulltags'') (rev (well_formed_records sample_fs)) = None"
    by code_simp
  note w = scan_installs_well_formed [of sample_fs ?r "''nulltags''"]
  from w a have s: "scan sample_fs ?r =
      Inr (?r\<lparr>metadata := install_all (metadata ?r) (well_formed_records sample_fs),
              loaded := True\<rparr>, scan_warnings sample_fs ?r)"
    by blast
  from w a b c have v: "dict_values (install_all (metadata ?r)
      (well_formed_records sample_fs)) = well_formed_records sample_fs"
    by blast
  from w a have "dict_get (install_all (metadata ?r) (well_formed_records sample_fs)) ''nulltags'' =
        (case find (\<lambda>m. name m = ''nulltags'') (rev (well_formed_records sample_fs)) of
           Some m \<Rightarrow> Some m
         | None \<Rightarrow> dict_get (metadata ?r) ''nulltags'')"
    by blast
  then have l: "dict_get (install_all (metadata ?r) (well_formed_records sample_fs))
      ''nulltags'' = None"
    by (simp add: g b dict_get_def)
  from scan_installs_well_formed [of no_fs ?r "''greet''"] n
  have x: "scan no_fs ?r =
      Inl (PyExn FileNotFoundError (''Skills directory not found: '' @ skills_dir ?r))"
    by blast
  have y: "skills_dir ?r = ''skills''" by code_simp
  from scan_installs_well_formed
         [of file_root_fs ?r "''greet''" "PyExn NotADirectoryError not_a_directory"] u
  have z: "scan file_root_fs ?r = Inl (PyExn NotADirectoryError not_a_directory)"
    by blast
  show ?thesis
    using a b c d e n u l v x z ws by (simp add: s registry_list_def y)
qed

text \<open>
  C5 as stated fails when two well-formed descriptors carry the same name: the directory
  \<open>twin_fs\<close> has two well-formed descriptors and none malformed, and the catalog after the
  scan of a fresh registry has one entry, the record read last. It also fails for a
  descriptor that lacks \<^verbatim>\<open>type\<close>, a field that the specification lists as required: the
  one descriptor of \<open>untyped_fs\<close> is stored as a pure-script skill, without a warning.
\<close>

theorem scan_same_name_counterexample:
  "length (well_formed_records twin_fs) = 2 \<and>
   malformed twin_fs = [] \<and>
   scan twin_fs (init_registry ''skills/'') =
     Inr (\<lparr>skills_dir = ''skills'',
           metadata = [(''twin'', \<lparr>name = ''twin'', version = ''1.0.0'',
                                   description = ''a sample skill'', tags = [''sample''],
                                   type = HYBRID\<rparr>)],
           full_definitions = [], loaded = True\<rparr>, []) \<and>
   map c_type (List.map_filter (\<lambda>e. case skill_yaml (snd e) of Some (Parsed c) \<Rightarrow> Some c | _ \<Rightarrow> None)
     (entries untyped_fs)) = [None] \<and>
   scan untyped_fs (init_registry ''skills/'') =
     Inr (\<lparr>skills_dir = ''skills'',
           metadata = [(''plain'', \<lparr>name = ''plain'', version = ''1.0.0'',
                                    description = ''a sample skill'', tags = [''sample''],
                                    type = PURE_SCRIPT\<rparr>)],
           full_definitions = [], loaded = True\<rparr>, [])"
  by code_simp

section \<open>Execution\<close>

lemma execute_loaded:
  "ensure_loaded (fs w) ex = Inr ex1 \<Longrightarrow> load_full (fs w) (registry ex1) n = (Inr skill, r) \<Longrightarrow>
   execute w ex n inp t0 t1 =
     (Inr (case dispatch w skill inp of
             Inr out \<Rightarrow> \<lparr>success = True, output_value = out, error = None,
                          execution_time = t1 - t0\<rparr>
           | Inl e \<Rightarrow> \<lparr>success = False, output_value = PNone, error = Some (exn_str e),
                        execution_time = t1 - t0\<rparr>), ex1\<lparr>registry := r\<rparr>)"
  by (simp add: execute_def split: sum.splits)

lemma execute_returns:
  "fst (execute w ex n inp t0 t1) = Inr res \<Longrightarrow>
   \<exists>ex1 skill r. ensure_loaded (fs w) ex = Inr ex1 \<and>
     load_full (fs w) (registry ex1) n = (Inr skill, r)"
  by (auto simp: execute_def split: sum.splits prod.splits)

text \<open>The two passes for a key, on a template of plain parts.\<close>

lemma take_is_old: "(take (length old) xs = old) = (\<exists>zs. xs = old @ zs)"
proof
  assume "take (length old) xs = old"
  then have "xs = old @ drop (length old) xs" by (metis append_take_drop_id)
  then show "\<exists>zs. xs = old @ zs" ..
next
  assume "\<exists>zs. xs = old @ zs"
  then show "take (length old) xs = old" by auto
qed

lemma replace_from_skip:
  "old \<noteq> [] \<Longrightarrow> hd old \<notin> set s \<Longrightarrow>
   replace_from old new (s @ rest) = s @ replace_from old new rest"
proof (induction s)
  case Nil
  then show ?case by simp
next
  case (Cons c s)
  have "take (length old) (c # s @ rest) \<noteq> old"
  proof
    assume "take (length old) (c # s @ rest) = old"
    then obtain zs where "c # s @ rest = old @ zs" unfolding take_is_old ..
    with Cons.prems(1) have "hd old = c" by (cases old) auto
    with Cons.prems(2) show False by simp
  qed
  with Cons show ?case by simp
qed

lemma replace_from_match:
  "old \<noteq> [] \<Longrightarrow> replace_from old new (old @ rest) = new @ replace_from old new rest"
  by (cases old) simp_all

lemma replace_from_step:
  "take (length old) (c # cs) \<noteq> old \<Longrightarrow>
   replace_from old new (c # cs) = c # replace_from old new cs"
  by simp

lemma brace_free_unique:
  "CHR ''}'' \<notin> set k \<Longrightarrow> CHR ''}'' \<notin> set k' \<Longrightarrow> k @ CHR ''}'' # xs = k' @ CHR ''}'' # ys \<Longrightarrow> k = k'"
proof (induction k arbitrary: k')
  case Nil
  then show ?case by (cases k') auto
next
  case (Cons c k)
  then show ?case by (cases k') auto
qed

lemma single_at_single:
  assumes "brace_free k" "brace_free k'"
  shows "(take (length (placeholder1 k)) (placeholder1 k' @ rest) = placeholder1 k) = (k = k')"
proof
  assume "take (length (placeholder1 k)) (placeholder1 k' @ rest) = placeholder1 k"
  then obtain zs where "placeholder1 k' @ rest = placeholder1 k @ zs" unfolding take_is_old ..
  then have "k' @ CHR ''}'' # rest = k @ CHR ''}'' # zs" by (simp add: placeholder1_def)
  with assms show "k = k'" using brace_free_unique [of k' k rest zs] by (simp add: brace_free_def)
next
  assume "k = k'"
  then show "take (length (placeholder1 k)) (placeholder1 k' @ rest) = placeholder1 k" by simp
qed

lemma double_at_double:
  assumes "brace_free k" "brace_free k'"
  shows "(take (length (placeholder2 k)) (placeholder2 k' @ rest) = placeholder2 k) = (k = k')"
proof
  assume "take (length (placeholder2 k)) (placeholder2 k' @ rest) = placeholder2 k"
  then obtain zs where "placeholder2 k' @ rest = placeholder2 k @ zs" unfolding take_is_old ..
  then have "k' @ CHR ''}'' # CHR ''}'' # rest = k @ CHR ''}'' # CHR ''}'' # zs"
    by (simp add: placeholder2_def)
  with assms show "k = k'"
    using brace_free_unique [of k' k "CHR ''}'' # rest" "CHR ''}'' # zs"]
    by (simp add: brace_free_def)
next
  assume "k = k'"
  then show "take (length (placeholder2 k)) (placeholder2 k' @ rest) = placeholder2 k" by simp
qed

lemma double_not_at_single:
  assumes "brace_free k'"
  shows "take (length (placeholder2 k)) (placeholder1 k' @ rest) \<noteq> placeholder2 k"
proof
  assume "take (length (placeholder2 k)) (placeholder1 k' @ rest) = placeholder2 k"
  then obtain zs where "placeholder1 k' @ rest = placeholder2 k @ zs" unfolding take_is_old ..
  then have "k' @ CHR ''}'' # rest = CHR ''{'' # k @ ''}}'' @ zs"
    by (simp add: placeholder1_def placeholder2_def)
  with assms show False by (cases k') (auto simp: brace_free_def)
qed

lemma single_not_at_double:
  assumes "brace_free k"
  shows "take (length (placeholder1 k)) (placeholder2 k' @ rest) \<noteq> placeholder1 k"
proof
  assume "take (length (placeholder1 k)) (placeholder2 k' @ rest) = placeholder1 k"
  then obtain zs where "placeholder2 k' @ rest = placeholder1 k @ zs" unfolding take_is_old ..
  then have "CHR ''{'' # k' @ ''}}'' @ rest = k @ CHR ''}'' # zs"
    by (simp add: placeholder1_def placeholder2_def)
  with assms show False by (cases k) (auto simp: brace_free_def)
qed


lemma template_text_Cons: "template_text (p # ps) = part_text p @ template_text ps"
  by (simp add: template_text_def)

lemma hd_placeholder2: "hd (placeholder2 k) = CHR ''{''" and ne_placeholder2: "placeholder2 k \<noteq> []"
  by (simp_all add: placeholder2_def)

lemma hd_placeholder1: "hd (placeholder1 k) = CHR ''{''" and ne_placeholder1: "placeholder1 k \<noteq> []"
  by (simp_all add: placeholder1_def)

lemma double_pass_part:
  assumes "plain_part p" and "brace_free k"
  shows "replace_from (placeholder2 k) v (part_text p @ rest) =
         part_text (fill_double k v p) @ replace_from (placeholder2 k) v rest"
proof (cases p)
  case (TText s)
  with assms show ?thesis
    by (simp add: replace_from_skip ne_placeholder2 hd_placeholder2 brace_free_def)
next
  case (TDouble k')
  show ?thesis
  proof (cases "k' = k")
    case True
    with TDouble show ?thesis by (simp add: replace_from_match ne_placeholder2)
  next
    case False
    from assms TDouble have bf: "brace_free k'" by simp
    let ?T = "(k' @ ''}}'') @ rest"
    have t0: "placeholder2 k' @ rest = CHR ''{'' # CHR ''{'' # ?T"
      by (simp add: placeholder2_def)
    have t1: "CHR ''{'' # ?T = placeholder1 k' @ (''}'' @ rest)"
      by (simp add: placeholder1_def)
    have n0: "take (length (placeholder2 k)) (CHR ''{'' # CHR ''{'' # ?T) \<noteq> placeholder2 k"
      using double_at_double [OF assms(2) bf, of rest] False unfolding t0 by simp
    have n1: "take (length (placeholder2 k)) (CHR ''{'' # ?T) \<noteq> placeholder2 k"
      using double_not_at_single [OF bf, of k "''}'' @ rest"] unfolding t1 by simp
    have sk: "replace_from (placeholder2 k) v ?T = (k' @ ''}}'') @ replace_from (placeholder2 k) v rest"
      using bf by (intro replace_from_skip) (simp_all add: ne_placeholder2 hd_placeholder2 brace_free_def)
    have fold_ph: "CHR ''{'' # CHR ''{'' # (k' @ ''}}'') @ X = placeholder2 k' @ X" for X
      by (simp add: placeholder2_def)
    have "replace_from (placeholder2 k) v (placeholder2 k' @ rest) =
        placeholder2 k' @ replace_from (placeholder2 k) v rest"
      by (subst t0) (simp only: replace_from_step [OF n0] replace_from_step [OF n1] sk, simp only: fold_ph)
    then show ?thesis using TDouble False by simp
  qed
next
  case (TSingle k')
  from assms TSingle have bf: "brace_free k'" by simp
  let ?T = "(k' @ ''}'') @ rest"
  have t0: "placeholder1 k' @ rest = CHR ''{'' # ?T" by (simp add: placeholder1_def)
  have n0: "take (length (placeholder2 k)) (CHR ''{'' # ?T) \<noteq> placeholder2 k"
    using double_not_at_single [OF bf, of k rest] unfolding t0 by simp
  have sk: "replace_from (placeholder2 k) v ?T = (k' @ ''}'') @ replace_from (placeholder2 k) v rest"
    using bf by (intro replace_from_skip) (simp_all add: ne_placeholder2 hd_placeholder2 brace_free_def)
  have fold_ph: "CHR ''{'' # (k' @ ''}'') @ X = placeholder1 k' @ X" for X
    by (simp add: placeholder1_def)
  have "replace_from (placeholder2 k) v (placeholder1 k' @ rest) =
      placeholder1 k' @ replace_from (placeholder2 k) v rest"
    by (subst t0) (simp only: replace_from_step [OF n0] sk, simp only: fold_ph)
  then show ?thesis using TSingle by simp
qed

lemma single_pass_part:
  assumes "plain_part p" and "brace_free k" and "p \<noteq> TDouble k"
  shows "replace_from (placeholder1 k) v (part_text p @ rest) =
         part_text (fill_single k v p) @ replace_from (placeholder1 k) v rest"
proof (cases p)
  case (TText s)
  with assms show ?thesis
    by (simp add: replace_from_skip ne_placeholder1 hd_placeholder1 brace_free_def)
next
  case (TSingle k')
  show ?thesis
  proof (cases "k' = k")
    case True
    with TSingle show ?thesis by (simp add: replace_from_match ne_placeholder1)
  next
    case False
    from assms TSingle have bf: "brace_free k'" by simp
    let ?T = "(k' @ ''}'') @ rest"
    have t0: "placeholder1 k' @ rest = CHR ''{'' # ?T" by (simp add: placeholder1_def)
    have n0: "take (length (placeholder1 k)) (CHR ''{'' # ?T) \<noteq> placeholder1 k"
      using single_at_single [OF assms(2) bf, of rest] False unfolding t0 by simp
    have sk: "replace_from (placeholder1 k) v ?T = (k' @ ''}'') @ replace_from (placeholder1 k) v rest"
      using bf by (intro replace_from_skip) (simp_all add: ne_placeholder1 hd_placeholder1 brace_free_def)
    have fold_ph: "CHR ''{'' # (k' @ ''}'') @ X = placeholder1 k' @ X" for X
      by (simp add: placeholder1_def)
    have "replace_from (placeholder1 k) v (placeholder1 k' @ rest) =
        placeholder1 k' @ replace_from (placeholder1 k) v rest"
      by (subst t0) (simp only: replace_from_step [OF n0] sk, simp only: fold_ph)
    then show ?thesis using TSingle False by simp
  qed
next
  case (TDouble k')
  from assms TDouble have bf: "brace_free k'" and ne: "k' \<noteq> k" by simp_all
  let ?T = "(k' @ ''}}'') @ rest"
  have t0: "placeholder2 k' @ rest = CHR ''{'' # CHR ''{'' # ?T"
    by (simp add: placeholder2_def)
  have t1: "CHR ''{'' # ?T = placeholder1 k' @ (''}'' @ rest)"
    by (simp add: placeholder1_def)
  have n0: "take (length (placeholder1 k)) (CHR ''{'' # CHR ''{'' # ?T) \<noteq> placeholder1 k"
    using single_not_at_double [OF assms(2), of k' rest] unfolding t0 by simp
  have n1: "take (length (placeholder1 k)) (CHR ''{'' # ?T) \<noteq> placeholder1 k"
    using single_at_single [OF assms(2) bf, of "''}'' @ rest"] ne unfolding t1 by simp
  have sk: "replace_from (placeholder1 k) v ?T = (k' @ ''}}'') @ replace_from (placeholder1 k) v rest"
    using bf by (intro replace_from_skip) (simp_all add: ne_placeholder1 hd_placeholder1 brace_free_def)
  have fold_ph: "CHR ''{'' # CHR ''{'' # (k' @ ''}}'') @ X = placeholder2 k' @ X" for X
    by (simp add: placeholder2_def)
  have "replace_from (placeholder1 k) v (placeholder2 k' @ rest) =
      placeholder2 k' @ replace_from (placeholder1 k) v rest"
    by (subst t0) (simp only: replace_from_step [OF n0] replace_from_step [OF n1] sk, simp only: fold_ph)
  then show ?thesis using TDouble ne by simp
qed

lemma double_pass:
  "list_all plain_part parts \<Longrightarrow> brace_free k \<Longrightarrow>
   replace_from (placeholder2 k) v (template_text parts) =
     template_text (map (fill_double k v) parts)"
proof (induction parts)
  case Nil
  then show ?case by (simp add: template_text_def)
next
  case (Cons p ps)
  then show ?case by (simp add: template_text_Cons double_pass_part)
qed

lemma single_pass:
  "list_all plain_part parts \<Longrightarrow> brace_free k \<Longrightarrow> TDouble k \<notin> set parts \<Longrightarrow>
   replace_from (placeholder1 k) v (template_text parts) =
     template_text (map (fill_single k v) parts)"
proof (induction parts)
  case Nil
  then show ?case by (simp add: template_text_def)
next
  case (Cons p ps)
  then have "p \<noteq> TDouble k" by auto
  with Cons show ?case by (simp add: template_text_Cons single_pass_part)
qed

lemma fill_double_plain:
  "brace_free v \<Longrightarrow> plain_part p \<Longrightarrow> plain_part (fill_double k v p)"
  by (cases p) simp_all

lemma fill_single_plain:
  "brace_free v \<Longrightarrow> plain_part p \<Longrightarrow> plain_part (fill_single k v p)"
  by (cases p) simp_all

lemma fill_double_gone: "brace_free v \<Longrightarrow> brace_free k \<Longrightarrow> fill_double k v p \<noteq> TDouble k"
  by (cases p) auto

lemma render_item_parts:
  assumes "list_all plain_part parts" and "plain_item kv"
  shows "render_item (template_text parts) kv =
     template_text (map (fill_single (fst kv) (py_str (snd kv)) \<circ> fill_double (fst kv) (py_str (snd kv))) parts)"
proof -
  let ?k = "fst kv" and ?v = "py_str (snd kv)"
  from assms(2) have k: "brace_free ?k" and v: "brace_free ?v" by (simp_all add: plain_item_def)
  let ?ps = "map (fill_double ?k ?v) parts"
  have p1: "list_all plain_part ?ps"
    using assms(1) v by (simp add: list_all_iff fill_double_plain)
  have p2: "TDouble ?k \<notin> set ?ps"
  proof
    assume "TDouble ?k \<in> set ?ps"
    then obtain p where "fill_double ?k ?v p = TDouble ?k" by auto
    with fill_double_gone [OF v k, of p] show False by simp
  qed
  have "render_item (template_text parts) kv =
      replace_from (placeholder1 ?k) ?v (replace_from (placeholder2 ?k) ?v (template_text parts))"
    by (simp add: render_item_def py_replace_def placeholder1_def placeholder2_def)
  also have "\<dots> = replace_from (placeholder1 ?k) ?v (template_text ?ps)"
    by (simp add: double_pass [OF assms(1) k])
  also have "\<dots> = template_text (map (fill_single ?k ?v) ?ps)"
    by (rule single_pass [OF p1 k p2])
  finally show ?thesis by simp
qed

lemma fill_key_plain:
  "plain_item kv \<Longrightarrow> plain_part p \<Longrightarrow>
   plain_part ((fill_single (fst kv) (py_str (snd kv)) \<circ> fill_double (fst kv) (py_str (snd kv))) p)"
  by (simp add: plain_item_def fill_double_plain fill_single_plain)

lemma fill_part_Cons:
  "fill_part inp (fill_single k (py_str v) (fill_double k (py_str v) p)) = fill_part ((k, v) # inp) p"
  by (cases p) (auto simp: dict_get_def split: option.splits)

lemma render_template_parts:
  "list_all plain_part parts \<Longrightarrow> list_all plain_item inp \<Longrightarrow>
   render_template (template_text parts) inp = template_text (map (fill_part inp) parts)"
proof (induction inp arbitrary: parts)
  case Nil
  have "fill_part [] p = p" for p
    by (cases p) (simp_all add: dict_get_def)
  then have "map (fill_part []) parts = parts"
    by (simp add: map_idI)
  then show ?case by (simp add: render_template_def)
next
  case (Cons kv inp)
  obtain k v where kv: "kv = (k, v)" by (cases kv)
  let ?f = "fill_single k (py_str v) \<circ> fill_double k (py_str v)"
  from Cons.prems have pk: "plain_item kv" and pi: "list_all plain_item inp" by simp_all
  have pl: "list_all plain_part (map ?f parts)"
    using Cons.prems(1) fill_key_plain [OF pk] kv by (simp add: list_all_iff)
  have "render_template (template_text parts) (kv # inp) =
      render_template (render_item (template_text parts) kv) inp"
    by (simp add: render_template_def)
  also have "\<dots> = render_template (template_text (map ?f parts)) inp"
    using render_item_parts [OF Cons.prems(1) pk] kv by simp
  also have "\<dots> = template_text (map (fill_part inp) (map ?f parts))"
    by (rule Cons.IH [OF pl pi])
  also have "\<dots> = template_text (map (fill_part (kv # inp)) parts)"
    by (simp add: kv fill_part_Cons comp_def)
  finally show ?case .
qed

lemma part_text_fill: "part_text (fill_part inp p) = spec_fill inp p"
  by (cases p) (simp_all split: option.splits)

lemma render_template_spec:
  assumes "list_all plain_part parts" and "list_all plain_item inp"
  shows "render_template (template_text parts) inp = spec_content parts inp"
proof -
  have "template_text (map (fill_part inp) parts) = spec_content parts inp"
    by (simp add: template_text_def spec_content_def comp_def part_text_fill)
  with render_template_parts [OF assms] show ?thesis by simp
qed


text \<open>
  C4, as the source has it. For a pure-prompt skill whose template is not the empty
  string, \<^verbatim>\<open>execute\<close> succeeds with the output \<^verbatim>\<open>{type: "prompt", content, skill_name}\<close>.
  The content comes from one pass for each key of the input, in iteration order: the pass
  replaces every occurrence of \<^verbatim>\<open>{{key}}\<close> and then every occurrence of \<^verbatim>\<open>{key}\<close> by the
  string form of the key's value, in the text as the earlier passes left it, so text that
  an earlier replacement put in is scanned again. When the template is made of text
  without braces and of placeholders \<^verbatim>\<open>{{k}}\<close> and \<^verbatim>\<open>{k}\<close> with \<open>k\<close> without braces, and
  no key and no string form of a value of the input has a brace, the content is the
  template with every placeholder of a key of the input replaced by the key's value and
  all the rest unchanged, as the specification words it. A template that is the empty
  string counts as missing: \<^verbatim>\<open>execute\<close> returns a failed result.
\<close>

theorem prompt_skill_content:
  assumes "ensure_loaded (fs w) ex = Inr ex1"
    and "load_full (fs w) (registry ex1) n = (Inr skill, r)"
    and "type skill = PURE_PROMPT"
    and "prompt_template skill = Some t"
  shows "(t \<noteq> [] \<longrightarrow>
       fst (execute w ex n input_data t0 t1) =
         Inr \<lparr>success = True,
              output_value = PDict [(''type'', PStr ''prompt''),
                                    (''content'', PStr (render_template t input_data)),
                                    (''skill_name'', PStr (name skill))],
              error = None, execution_time = t1 - t0\<rparr>) \<and>
     (t = [] \<longrightarrow>
       fst (execute w ex n input_data t0 t1) =
         Inr \<lparr>success = False, output_value = PNone,
              error = Some (''Pure prompt skill '' @ repr_str (name skill)
                              @ '' missing prompt_template''),
              execution_time = t1 - t0\<rparr>) \<and>
     render_template t [] = t \<and>
     render_template t (items @ [(k, v)]) =
       py_replace (py_replace (render_template t items) (''{{'' @ k @ ''}}'') (py_str v))
         (''{'' @ k @ ''}'') (py_str v) \<and>
     (t = template_text parts \<and> list_all plain_part parts \<and> list_all plain_item input_data \<longrightarrow>
       render_template t input_data = spec_content parts input_data)"
proof -
  have a: "t \<noteq> [] \<Longrightarrow> dispatch w skill input_data =
      Inr (PDict [(''type'', PStr ''prompt''),
                  (''content'', PStr (render_template t input_data)),
                  (''skill_name'', PStr (name skill))])"
    using assms(3,4) by (simp add: dispatch_def execute_prompt_skill_def)
  have b: "t = [] \<Longrightarrow> dispatch w skill input_data =
      Inl (PyExn ValueError (''Pure prompt skill '' @ repr_str (name skill)
                              @ '' missing prompt_template''))"
    using assms(3,4) by (simp add: dispatch_def execute_prompt_skill_def)
  have c: "render_template t [] = t" by (simp add: render_template_def)
  have d: "render_template t (items @ [(k, v)]) =
       py_replace (py_replace (render_template t items) (''{{'' @ k @ ''}}'') (py_str v))
         (''{'' @ k @ ''}'') (py_str v)"
    by (simp add: render_template_def render_item_def)
  show ?thesis
    using a b c d render_template_spec [of parts input_data]
    by (simp add: execute_loaded [OF assms(1,2)])
qed

theorem prompt_skill_content_witness:
  "ensure_loaded (fs sample_world) sample_executor = Inr sample_executor \<and>
   fst (load_full (fs sample_world) (registry sample_executor) ''greet'') = Inr greet_definition \<and>
   type greet_definition = PURE_PROMPT \<and>
   prompt_template greet_definition = Some ''Hello {{name}}, age {age}'' \<and>
   ''Hello {{name}}, age {age}'' \<noteq> [] \<and>
   ''Hello {{name}}, age {age}'' =
     template_text [TText ''Hello '', TDouble ''name'', TText '', age '', TSingle ''age''] \<and>
   list_all plain_part [TText ''Hello '', TDouble ''name'', TText '', age '', TSingle ''age''] \<and>
   list_all plain_item [(''name'', PStr ''Ada''), (''age'', PInt 30)] \<and>
   spec_content [TText ''Hello '', TDouble ''name'', TText '', age '', TSingle ''age'']
     [(''name'', PStr ''Ada''), (''age'', PInt 30)] = ''Hello Ada, age 30'' \<and>
   fst (execute sample_world sample_executor ''greet''
          [(''name'', PStr ''Ada''), (''age'', PInt 30)] 1 3) =
     Inr \<lparr>success = True,
          output_value = PDict [(''type'', PStr ''prompt''),
                                (''content'', PStr ''Hello Ada, age 30''),
                                (''skill_name'', PStr ''greet'')],
          error = None, execution_time = 2\<rparr> \<and>
   fst (load_full (fs sample_world) (registry sample_executor) ''blank'') = Inr blank_definition \<and>
   type blank_definition = PURE_PROMPT \<and>
   prompt_template blank_definition = Some [] \<and>
   fst (execute sample_world sample_executor ''blank'' [(''name'', PStr ''Ada'')] 1 3) =
     Inr \<lparr>success = False, output_value = PNone,
          error = Some ''Pure prompt skill 'blank' missing prompt_template'',
          execution_time = 2\<rparr>"
proof -
  let ?parts = "[TText ''Hello '', TDouble ''name'', TText '', age '', TSingle ''age'']"
  let ?inp = "[(''name'', PStr ''Ada''), (''age'', PInt 30)]"
  have a: "ensure_loaded (fs sample_world) sample_executor = Inr sample_executor"
    by (simp add: ensure_loaded_def sample_executor_def)
  have b1: "fst (load_full (fs sample_world) (registry sample_executor) ''greet'') =
      Inr greet_definition"
    by (simp add: sample_load_greet sample_world_def sample_executor_def)
  have b: "load_full (fs sample_world) (registry sample_executor) ''greet'' =
      (Inr greet_definition,
       snd (load_full (fs sample_world) (registry sample_executor) ''greet''))"
    by (rule prod_eqI) (simp_all add: b1)
  have c: "type greet_definition = PURE_PROMPT" by (simp add: greet_definition_def)
  have d: "prompt_template greet_definition = Some ''Hello {{name}}, age {age}''"
    by (simp add: greet_definition_def)
  have e: "''Hello {{name}}, age {age}'' \<noteq> []" by simp
  have f: "''Hello {{name}}, age {age}'' = template_text ?parts" by code_simp
  have g: "list_all plain_part ?parts" by code_simp
  have h: "list_all plain_item ?inp" by code_simp
  have i: "spec_content ?parts ?inp = ''Hello Ada, age 30''" by code_simp
  have j: "name greet_definition = ''greet''" by (simp add: greet_definition_def)
  note w = prompt_skill_content [OF a b c d, of ?inp 1 3 "[]" "''x''" PNone ?parts]
  from w e have ex: "fst (execute sample_world sample_executor ''greet'' ?inp 1 3) =
         Inr \<lparr>success = True,
              output_value = PDict [(''type'', PStr ''prompt''),
                                    (''content'', PStr (render_template
                                       ''Hello {{name}}, age {age}'' ?inp)),
                                    (''skill_name'', PStr (name greet_definition))],
              error = None, execution_time = 3 - 1\<rparr>"
    by blast
  from w f g h have rt: "render_template ''Hello {{name}}, age {age}'' ?inp =
      spec_content ?parts ?inp"
    by blast
  have k1: "fst (load_full (fs sample_world) (registry sample_executor) ''blank'') =
      Inr blank_definition"
    by code_simp
  have k: "load_full (fs sample_world) (registry sample_executor) ''blank'' =
      (Inr blank_definition,
       snd (load_full (fs sample_world) (registry sample_executor) ''blank''))"
    by (rule prod_eqI) (simp_all add: k1)
  have l: "type blank_definition = PURE_PROMPT" by (simp add: blank_definition_def)
  have m: "prompt_template blank_definition = Some []" by (simp add: blank_definition_def)
  have q: "repr_str (name blank_definition) = CHR 0x27 # ''blank'' @ [CHR 0x27]"
    by code_simp
  from prompt_skill_content [OF a k l m, of "[(''name'', PStr ''Ada'')]" 1 3 "[]" "''x''" PNone "[]"]
  have bl: "fst (execute sample_world sample_executor ''blank'' [(''name'', PStr ''Ada'')] 1 3) =
         Inr \<lparr>success = False, output_value = PNone,
              error = Some (''Pure prompt skill '' @ repr_str (name blank_definition)
                              @ '' missing prompt_template''),
              execution_time = 3 - 1\<rparr>"
    by blast
  have ex': "fst (execute sample_world sample_executor ''greet'' ?inp 1 3) =
     Inr \<lparr>success = True,
          output_value = PDict [(''type'', PStr ''prompt''),
                                (''content'', PStr ''Hello Ada, age 30''),
                                (''skill_name'', PStr ''greet'')],
          error = None, execution_time = 2\<rparr>"
    by (simp add: ex rt i j)
  have bl': "fst (execute sample_world sample_executor ''blank'' [(''name'', PStr ''Ada'')] 1 3) =
     Inr \<lparr>success = False, output_value = PNone,
          error = Some ''Pure prompt skill 'blank' missing prompt_template'',
          execution_time = 2\<rparr>"
    by (simp add: bl q)
  show ?thesis
    by (intro conjI a b1 c d e f g h i ex' k1 l m bl')
qed

text \<open>
  C4 as stated fails in two ways. Text that a replacement put in is scanned again: for the
  template \<^verbatim>\<open>{a}\<close> and the input \<^verbatim>\<open>{a: "{b}", b: "X"}\<close> the content is \<^verbatim>\<open>X\<close>, where the
  occurrence of \<^verbatim>\<open>{a}\<close> replaced by the value of \<open>a\<close> is \<^verbatim>\<open>{b}\<close>; and for the template
  \<^verbatim>\<open>{{k}}\<close> and the input \<^verbatim>\<open>{k: "a{k}"}\<close> the content is \<^verbatim>\<open>aa{k}\<close>, where it would be
  \<^verbatim>\<open>a{k}\<close>. And a pure-prompt skill whose template is the empty string has a
  \<^verbatim>\<open>prompt_template\<close>, yet \<^verbatim>\<open>execute\<close> returns a failed result that calls it missing.
\<close>

theorem prompt_content_counterexample:
  "fst (execute chain_world (init_executor ''skills/'') ''chain''
          [(''a'', PStr ''{b}''), (''b'', PStr ''X'')] 0 1) =
     Inr \<lparr>success = True,
          output_value = PDict [(''type'', PStr ''prompt''), (''content'', PStr ''X''),
                                (''skill_name'', PStr ''chain'')],
          error = None, execution_time = 1\<rparr> \<and>
   template_text [TSingle ''a''] = ''{a}'' \<and>
   spec_content [TSingle ''a''] [(''a'', PStr ''{b}''), (''b'', PStr ''X'')] = ''{b}'' \<and>
   fst (execute chain_world (init_executor ''skills/'') ''echo'' [(''k'', PStr ''a{k}'')] 0 1) =
     Inr \<lparr>success = True,
          output_value = PDict [(''type'', PStr ''prompt''), (''content'', PStr ''aa{k}''),
                                (''skill_name'', PStr ''echo'')],
          error = None, execution_time = 1\<rparr> \<and>
   template_text [TDouble ''k''] = ''{{k}}'' \<and>
   spec_content [TDouble ''k''] [(''k'', PStr ''a{k}'')] = ''a{k}'' \<and>
   fst (load_full sample_fs sample_registry ''blank'') = Inr blank_definition \<and>
   type blank_definition = PURE_PROMPT \<and>
   prompt_template blank_definition = Some [] \<and>
   fst (execute sample_world sample_executor ''blank'' [(''name'', PStr ''Ada'')] 0 1) =
     Inr \<lparr>success = False, output_value = PNone,
          error = Some ''Pure prompt skill 'blank' missing prompt_template'',
          execution_time = 1\<rparr>"
  by code_simp





lemma execute_result:
  assumes "fst (execute w ex n inp t0 t1) = Inr res"
  shows "\<exists>ex1 skill r. ensure_loaded (fs w) ex = Inr ex1 \<and>
     load_full (fs w) (registry ex1) n = (Inr skill, r) \<and>
     res = (case dispatch w skill inp of
              Inr out \<Rightarrow> \<lparr>success = True, output_value = out, error = None,
                           execution_time = t1 - t0\<rparr>
            | Inl e \<Rightarrow> \<lparr>success = False, output_value = PNone, error = Some (exn_str e),
                         execution_time = t1 - t0\<rparr>)"
proof -
  from execute_returns [OF assms] obtain ex1 skill r
    where a: "ensure_loaded (fs w) ex = Inr ex1"
      and b: "load_full (fs w) (registry ex1) n = (Inr skill, r)"
    by blast
  from assms show ?thesis
    unfolding execute_loaded [OF a b] using a b by auto
qed

lemma prompt_output_present:
  "execute_prompt_skill skill inp = Inr out \<Longrightarrow> out \<noteq> PNone"
  by (auto simp: execute_prompt_skill_def split: option.splits if_splits)

text \<open>
  C6, as the source has it. For every result that \<^verbatim>\<open>execute\<close> returns, \<open>error\<close> is present
  iff \<open>success\<close> is false, and \<open>output\<close> is present only if \<open>success\<close> is true: on success
  it is the value that the dispatch returned, which is present for a pure-prompt skill and
  is whatever the handler returned otherwise. \<open>execution_time\<close> is the difference of the
  two clock readings, so it is non-negative when the clock did not go back between them.
\<close>

theorem result_envelope:
  assumes "fst (execute w ex n input_data t0 t1) = Inr res"
  shows "(error res \<noteq> None) = (\<not> success res) \<and>
     (output_value res \<noteq> PNone \<longrightarrow> success res) \<and>
     execution_time res = t1 - t0 \<and>
     (t0 \<le> t1 \<longrightarrow> 0 \<le> execution_time res) \<and>
     (\<exists>ex1 skill r.
        ensure_loaded (fs w) ex = Inr ex1 \<and>
        load_full (fs w) (registry ex1) n = (Inr skill, r) \<and>
        (success res \<longrightarrow> dispatch w skill input_data = Inr (output_value res)) \<and>
        (success res \<and> type skill = PURE_PROMPT \<longrightarrow> output_value res \<noteq> PNone) \<and>
        (\<not> success res \<longrightarrow>
           (\<exists>e. dispatch w skill input_data = Inl e \<and> error res = Some (exn_str e))))"
proof -
  from execute_result [OF assms] obtain ex1 skill r
    where a: "ensure_loaded (fs w) ex = Inr ex1"
      and b: "load_full (fs w) (registry ex1) n = (Inr skill, r)"
      and c: "res = (case dispatch w skill input_data of
              Inr out \<Rightarrow> \<lparr>success = True, output_value = out, error = None,
                           execution_time = t1 - t0\<rparr>
            | Inl e \<Rightarrow> \<lparr>success = False, output_value = PNone, error = Some (exn_str e),
                         execution_time = t1 - t0\<rparr>)"
    by blast
  show ?thesis
  proof (cases "dispatch w skill input_data")
    case (Inl e)
    with a b c show ?thesis by auto
  next
    case (Inr out)
    have "type skill = PURE_PROMPT \<Longrightarrow> out \<noteq> PNone"
      using Inr prompt_output_present [of skill input_data out] by (simp add: dispatch_def)
    with a b c Inr show ?thesis by auto
  qed
qed

theorem result_envelope_witness:
  "fst (execute sample_world sample_executor ''calc'' [(''x'', PInt 7)] 1 3) =
     Inr \<lparr>success = True, output_value = PDict [(''x'', PInt 7)], error = None,
          execution_time = 2\<rparr> \<and>
   fst (execute sample_world sample_executor ''fail'' [] 1 3) =
     Inr \<lparr>success = False, output_value = PNone, error = Some ''boom'', execution_time = 2\<rparr> \<and>
   (1::real) \<le> 3 \<and>
   (0::real) \<le> execution_time \<lparr>success = True, output_value = PDict [(''x'', PInt 7)],
                                 error = None, execution_time = 2\<rparr> \<and>
   (\<exists>ex1 skill r.
      ensure_loaded (fs sample_world) sample_executor = Inr ex1 \<and>
      load_full (fs sample_world) (registry ex1) ''calc'' = (Inr skill, r) \<and>
      dispatch sample_world skill [(''x'', PInt 7)] = Inr (PDict [(''x'', PInt 7)])) \<and>
   (\<exists>ex1 skill r e.
      ensure_loaded (fs sample_world) sample_executor = Inr ex1 \<and>
      load_full (fs sample_world) (registry ex1) ''fail'' = (Inr skill, r) \<and>
      dispatch sample_world skill [] = Inl e \<and> exn_str e = ''boom'')"
proof -
  have a: "fst (execute sample_world sample_executor ''calc'' [(''x'', PInt 7)] 1 3) =
     Inr \<lparr>success = True, output_value = PDict [(''x'', PInt 7)], error = None,
          execution_time = 2\<rparr>"
    by code_simp
  have b: "fst (execute sample_world sample_executor ''fail'' [] 1 3) =
     Inr \<lparr>success = False, output_value = PNone, error = Some ''boom'', execution_time = 2\<rparr>"
    by code_simp
  show ?thesis
    using a b result_envelope [OF a] result_envelope [OF b] by auto
qed

text \<open>
  C6 as stated fails for a handler that returns \<^verbatim>\<open>None\<close>: the result of the pure-script
  skill \<open>quiet\<close> has \<open>success\<close> true and no output.
\<close>

theorem none_output_counterexample:
  "fst (execute sample_world sample_executor ''quiet'' [] 0 1) =
     Inr \<lparr>success = True, output_value = PNone, error = None, execution_time = 1\<rparr>"
  by code_simp


lemma handler_error_reported:
  assumes "ensure_loaded (fs w) ex = Inr ex1"
    and "load_full (fs w) (registry ex1) n = (Inr skill, r)"
    and "type skill = PURE_SCRIPT \<or> type skill = HYBRID"
    and "execution skill = Some ec"
    and "importer w (module_path skill ec) = Inr skill_module"
    and "map_of skill_module (function_name ec) = Some handler_func"
    and "handler_func (PDict input_data) = Inl e"
  shows "fst (execute w ex n input_data t0 t1) =
     Inr \<lparr>success = False, output_value = PNone, error = Some (exn_str (rewrap skill e)),
          execution_time = t1 - t0\<rparr>"
  using assms(3-)
  by (auto simp: execute_loaded [OF assms(1,2)] dispatch_def execute_hybrid_skill_def
      execute_script_skill_def)

lemma rewrap_other:
  "exn_kind_of e \<noteq> ImportError \<Longrightarrow> exn_kind_of e \<noteq> AttributeError \<Longrightarrow> rewrap skill e = e"
  by (simp add: rewrap_def)

text \<open>
  C1. The source calls \<^verbatim>\<open>load_full\<close> before its \<^verbatim>\<open>try\<close> block, so the \<^verbatim>\<open>ValueError\<close>
  that \<^verbatim>\<open>load_full\<close> raises for a name that is not in the catalog leaves \<^verbatim>\<open>execute\<close>:
  on the sample directory, \<^verbatim>\<open>execute("does-not-exist", {})\<close> raises and returns no result.
\<close>

theorem execute_unknown_skill_raises:
  "fst (execute sample_world (init_executor ''skills'') ''does-not-exist'' [] 0 1) =
     Inl (PyExn ValueError (not_found_message ''does-not-exist''
            [''greet'', ''calc'', ''quiet'', ''fail'', ''probe'', ''lookup'', ''bare'',
             ''noexec'', ''blank'']))"
  by code_simp

text \<open>When \<^verbatim>\<open>execute_batch\<close> returns, it returns one result for each entry.\<close>

lemma run_tasks_length: "length (fst (run_tasks w clock i ts ex)) = length ts"
proof (induction ts arbitrary: i ex)
  case Nil
  then show ?case by simp
next
  case (Cons t ts)
  obtain n inp where t: "t = (n, inp)" by (cases t)
  obtain res ex1 where e: "execute w ex n inp (fst (clock i)) (snd (clock i)) = (res, ex1)"
    by (cases "execute w ex n inp (fst (clock i)) (snd (clock i))")
  obtain ress ex2 where r: "run_tasks w clock (Suc i) ts ex1 = (ress, ex2)"
    by (cases "run_tasks w clock (Suc i) ts ex1")
  from Cons.IH [of "Suc i" ex1] r have "length ress = length ts" by simp
  with t e r show ?case by simp
qed

lemma gather_results: "gather rs = Inr xs \<Longrightarrow> rs = map Inr xs"
  by (induction rs arbitrary: xs rule: gather.induct) (auto split: sum.splits)

lemma make_tasks_length: "make_tasks es = Inr ts \<Longrightarrow> length ts = length es"
  by (induction es arbitrary: ts) (auto split: option.splits sum.splits)

lemma execute_batch_length:
  assumes "fst (execute_batch w ex es clock) = Inr results"
  shows "length results = length es"
proof -
  from assms obtain ex1 ts where a: "ensure_loaded (fs w) ex = Inr ex1"
    and b: "make_tasks es = Inr ts"
    and c: "gather (fst (run_tasks w clock 0 ts ex1)) = Inr results"
    by (auto simp: execute_batch_def split: sum.splits prod.splits)
  from gather_results [OF c] have "length results = length (fst (run_tasks w clock 0 ts ex1))"
    by (metis length_map)
  then show ?thesis by (simp add: run_tasks_length make_tasks_length [OF b])
qed

text \<open>
  C3. A batch of two entries, the first for the skill \<open>greet\<close> and the second for a name
  that is not in the catalog: the exception of the second call leaves \<^verbatim>\<open>gather\<close> and
  \<^verbatim>\<open>execute_batch\<close>, and the caller gets no list, so the result of the first entry is
  lost.
\<close>

theorem execute_batch_unknown_skill_raises:
  "fst (execute_batch sample_world (init_executor ''skills'')
          [\<lparr>b_skill_name = Some ''greet'',
            b_input_data = Some [(''name'', PStr ''Ada''), (''age'', PInt 30)]\<rparr>,
           \<lparr>b_skill_name = Some ''does-not-exist'', b_input_data = Some []\<rparr>]
          (\<lambda>i. (0, 1))) =
     Inl (PyExn ValueError (not_found_message ''does-not-exist''
            [''greet'', ''calc'', ''quiet'', ''fail'', ''probe'', ''lookup'', ''bare'',
             ''noexec'', ''blank'']))"
  by code_simp

text \<open>
  C7. The handler of the pure-script skill \<open>probe\<close> is found and called, and raises an
  \<^verbatim>\<open>AttributeError\<close> with the message \<^verbatim>\<open>NoneType object has no attribute get\<close>. The call
  is inside the \<^verbatim>\<open>try\<close> block whose \<^verbatim>\<open>except AttributeError\<close> clause is written for a
  missing handler function, so the \<open>error\<close> of the result is not the message of the
  exception: it is that message behind \<^verbatim>\<open>Handler function not found for skill 'probe': \<close>.
\<close>

theorem handler_attribute_error_rewrapped:
  "map_option (\<lambda>h. h (PDict []))
     (case sample_importer ''skills.probe.handler'' of
        Inl e \<Rightarrow> None
      | Inr skill_module \<Rightarrow> map_of skill_module ''execute'') =
     Some (Inl (PyExn AttributeError ''NoneType object has no attribute get'')) \<and>
   fst (execute sample_world sample_executor ''probe'' [] 0 1) =
     Inr \<lparr>success = False, output_value = PNone,
          error = Some ''Handler function not found for skill 'probe': NoneType object has no attribute get'',
          execution_time = 1\<rparr>"
  by code_simp


end
